theory Spec2Isabelle
  imports Main
begin

section \<open>Data model\<close>

text \<open>
  The polling execution controller of
  \<^verbatim>\<open>sql-editor/src/SqlResultTabs/SQLQueryExecutionProcess.ts\<close>.
  The class extends \<^verbatim>\<open>Deferred<SqlExecuteInfo>\<close>; its fields and the fields of the
  deferred result it inherits are one record. The asynchronous code is embedded by
  explicit state passing: every \<^verbatim>\<open>await\<close> of the source is a point where the
  environment supplies the outcome of the awaited call and the number of times
  \<^verbatim>\<open>cancel()\<close> was invoked while \<^verbatim>\<open>start\<close> was suspended there.
\<close>

datatype EDeferredState = PENDING | CANCELLING | RESOLVED | REJECTED | CANCELLED

datatype ServerError = ServerError string

datatype SqlExecuteInfo = SqlExecuteInfo string

text \<open>\<^verbatim>\<open>AsyncTaskInfo\<close> of the GraphQL schema, with the fields the controller reads.\<close>

record AsyncTaskInfo =
  id' :: string
  running :: bool
  error :: "ServerError option"
  result :: "SqlExecuteInfo option"
  status :: "string option"

record ISqlQueryParams =
  connectionId :: string
  contextId :: string
  query :: string

text \<open>
  Values that are thrown and caught: the wrapper the controller builds around a
  server-side error, a plain \<^verbatim>\<open>Error\<close> with its message, an error thrown by a remote
  call, and the programming-error fault of the deferred result.
\<close>

datatype Exception =
    ServerInternalError ServerError
  | Error string
  | GQLError string
  | DeferredFault

text \<open>
  Modelled from the spec: \<^verbatim>\<open>CancellablePromise\<close> and \<^verbatim>\<open>cancellableTimeout\<close> of
  \<^verbatim>\<open>@dbeaver/core/utils\<close> are not among the sources. A delay handle is active until it
  elapses or is cancelled.
\<close>

datatype CancellablePromise = TimerActive | TimerElapsed | TimerCancelled

text \<open>
  Modelled from the spec: \<^verbatim>\<open>cancel()\<close> of \<^verbatim>\<open>CancellablePromise\<close> cancels an active
  delay; cancelling a delay that has elapsed or was cancelled has no effect.
\<close>

fun cancel_timer :: "CancellablePromise \<Rightarrow> CancellablePromise" where
  "cancel_timer TimerActive = TimerCancelled"
| "cancel_timer t = t"

text \<open>
  Modelled from the spec: a delay that is still active when the controller resumes from
  awaiting it has elapsed.
\<close>

fun settle_timer :: "CancellablePromise \<Rightarrow> CancellablePromise" where
  "settle_timer TimerActive = TimerElapsed"
| "settle_timer t = t"

text \<open>
  What the controller does to its collaborators, in the order it does it: a remote call
  is recorded when it settles, together with its outcome (\<open>Inl\<close> and \<open>Some\<close> are the
  thrown error); a delay is recorded when it is created; the transitions of the deferred
  result are recorded with the state they leave.
\<close>

datatype Event =
    AsyncSqlExecuteQuery ISqlQueryParams int int "Exception + AsyncTaskInfo"
  | AsyncTaskStatus "string option" "Exception + AsyncTaskInfo"
  | AsyncTaskCancel "string option" "Exception option"
  | CancellableTimeout nat
  | LogException Exception string
  | Transition EDeferredState EDeferredState

record SQLQueryExecutionProcess =
  state :: EDeferredState
  payload :: "SqlExecuteInfo option"
  rejectionReason :: "Exception option"
  taskId :: "string option"
  timeout :: "CancellablePromise option"
  isCancelConfirmed :: bool
  trace :: "Event list"

definition new_process :: SQLQueryExecutionProcess where
  "new_process =
     \<lparr>state = PENDING, payload = None, rejectionReason = None, taskId = None,
      timeout = None, isCancelConfirmed = False, trace = []\<rparr>"

definition DELAY_BETWEEN_TRIES :: nat where
  "DELAY_BETWEEN_TRIES = 1000"

text \<open>A statement either completes or throws; both leave a controller behind.\<close>

datatype Completion =
    Normal SQLQueryExecutionProcess
  | Throw Exception SQLQueryExecutionProcess

section \<open>The deferred result\<close>

text \<open>
  The class \<^verbatim>\<open>Deferred\<close> of \<^verbatim>\<open>@dbeaver/core/utils\<close>, which the controller extends, is not
  among the sources. Its members are taken from the specification of the deferred result.
\<close>

text \<open>Modelled from the spec: \<^verbatim>\<open>getState\<close> of \<^verbatim>\<open>Deferred\<close> reads the state.\<close>

definition getState :: "SQLQueryExecutionProcess \<Rightarrow> EDeferredState" where
  "getState c = state c"

text \<open>
  Modelled from the spec: \<^verbatim>\<open>isInProgress\<close> of \<^verbatim>\<open>Deferred\<close> holds when the state is
  Pending or Cancelling.
\<close>

definition isInProgress :: "SQLQueryExecutionProcess \<Rightarrow> bool" where
  "isInProgress c \<longleftrightarrow> state c = PENDING \<or> state c = CANCELLING"

text \<open>
  Modelled from the spec: \<^verbatim>\<open>isFinished\<close> of \<^verbatim>\<open>Deferred\<close> holds when the state is
  Resolved, Rejected or Cancelled.
\<close>

definition isFinished :: "SQLQueryExecutionProcess \<Rightarrow> bool" where
  "isFinished c \<longleftrightarrow> state c = RESOLVED \<or> state c = REJECTED \<or> state c = CANCELLED"

text \<open>An event is added at the end of the trace.\<close>

definition emit :: "Event \<Rightarrow> SQLQueryExecutionProcess \<Rightarrow> SQLQueryExecutionProcess" where
  "emit e c = c\<lparr>trace := trace c @ [e]\<rparr>"

text \<open>A change of state, recorded with the state it leaves.\<close>

definition transition :: "EDeferredState \<Rightarrow> SQLQueryExecutionProcess \<Rightarrow> SQLQueryExecutionProcess" where
  "transition s c = (emit (Transition (state c) s) c)\<lparr>state := s\<rparr>"

text \<open>
  Modelled from the spec: \<^verbatim>\<open>toResolved(value)\<close> of \<^verbatim>\<open>Deferred\<close> requires the state to
  be Pending or Cancelling, sets the value and moves to Resolved; in any other state it is a
  programming-error fault, which leaves the result as it is.
\<close>

definition toResolved :: "SqlExecuteInfo \<Rightarrow> SQLQueryExecutionProcess \<Rightarrow> Completion" where
  "toResolved v c =
     (if isInProgress c then Normal ((transition RESOLVED c)\<lparr>payload := Some v\<rparr>)
      else Throw DeferredFault c)"

text \<open>
  Modelled from the spec: \<^verbatim>\<open>toRejected(error)\<close> of \<^verbatim>\<open>Deferred\<close> is analogous: it sets
  the error and moves to Rejected.
\<close>

definition toRejected :: "Exception \<Rightarrow> SQLQueryExecutionProcess \<Rightarrow> Completion" where
  "toRejected e c =
     (if isInProgress c then Normal ((transition REJECTED c)\<lparr>rejectionReason := Some e\<rparr>)
      else Throw DeferredFault c)"

text \<open>
  Modelled from the spec: \<^verbatim>\<open>toCancelling()\<close> of \<^verbatim>\<open>Deferred\<close> is an explicit transition
  for the owning controller.
\<close>

definition toCancelling :: "SQLQueryExecutionProcess \<Rightarrow> SQLQueryExecutionProcess" where
  "toCancelling c = transition CANCELLING c"

text \<open>
  Modelled from the spec: \<^verbatim>\<open>toCancelled()\<close> of \<^verbatim>\<open>Deferred\<close> is an explicit transition
  for the owning controller.
\<close>

definition toCancelled :: "SQLQueryExecutionProcess \<Rightarrow> SQLQueryExecutionProcess" where
  "toCancelled c = transition CANCELLED c"

text \<open>
  Modelled from the spec: \<^verbatim>\<open>toPending()\<close> of \<^verbatim>\<open>Deferred\<close> is an explicit transition for
  the owning controller.
\<close>

definition toPending :: "SQLQueryExecutionProcess \<Rightarrow> SQLQueryExecutionProcess" where
  "toPending c = transition PENDING c"

text \<open>
  Modelled from the spec: \<^verbatim>\<open>logException\<close> of the \<^verbatim>\<open>NotificationService\<close> in
  \<^verbatim>\<open>@dbeaver/core/eventsLog\<close> is not among the sources. The logging collaborator accepts
  the error and the context message, never blocks and never affects the control flow.
\<close>

definition logException ::
  "Exception \<Rightarrow> string \<Rightarrow> SQLQueryExecutionProcess \<Rightarrow> SQLQueryExecutionProcess" where
  "logException e message c = emit (LogException e message) c"

section \<open>The controller\<close>

text \<open>
  \<^verbatim>\<open>onError(error, status?)\<close>. The template literal appends the status only when it is
  truthy: a missing and an empty status both give the bare message.
\<close>

definition canceled_message :: "string option \<Rightarrow> string" where
  "canceled_message st =
     ''Query execution has been canceled'' @
       (case st of None \<Rightarrow> [] | Some s \<Rightarrow> if s = [] then [] else '': '' @ s)"

text \<open>
  \<^verbatim>\<open>onError\<close>: a fault during cancelling means the task was cancelled; any other fault
  rejects the result.
\<close>

definition onError ::
  "Exception \<Rightarrow> string option \<Rightarrow> SQLQueryExecutionProcess \<Rightarrow> Completion" where
  "onError e st c =
     (if getState c = CANCELLING
      then Normal (logException e (canceled_message st) (toCancelled c))
      else toRejected e c)"

text \<open>
  \<^verbatim>\<open>applyResult(taskInfo)\<close>: the checks of the source in their order, \<^verbatim>\<open>running\<close>, then
  \<^verbatim>\<open>error\<close>, then a missing \<^verbatim>\<open>result\<close>.
\<close>

definition applyResult :: "AsyncTaskInfo \<Rightarrow> SQLQueryExecutionProcess \<Rightarrow> Completion" where
  "applyResult taskInfo c =
     (if running taskInfo then Normal c
      else case error taskInfo of
        Some se \<Rightarrow> onError (ServerInternalError se) (status taskInfo) c
      | None \<Rightarrow>
         (case result taskInfo of
            None \<Rightarrow> onError (Error ''Tasks execution returns no result'') (status taskInfo) c
          | Some r \<Rightarrow> toResolved r c))"

text \<open>\<^verbatim>\<open>cancel()\<close>: it has no \<^verbatim>\<open>await\<close>, so it runs to its end when it is invoked.\<close>

definition cancel :: "SQLQueryExecutionProcess \<Rightarrow> SQLQueryExecutionProcess" where
  "cancel c =
     (if getState c \<noteq> PENDING then c
      else let c1 = toCancelling c
           in case timeout c1 of
                None \<Rightarrow> c1
              | Some t \<Rightarrow> c1\<lparr>timeout := Some (cancel_timer t)\<rparr>)"

text \<open>The invocations of \<^verbatim>\<open>cancel()\<close> that arrive while \<^verbatim>\<open>start\<close> is suspended.\<close>

primrec cancel_times :: "nat \<Rightarrow> SQLQueryExecutionProcess \<Rightarrow> SQLQueryExecutionProcess" where
  "cancel_times 0 c = c"
| "cancel_times (Suc n) c = cancel_times n (cancel c)"

text \<open>
  The environment of one serialized cancel step: the invocations of \<^verbatim>\<open>cancel()\<close> while
  the remote cancel call is in flight, the outcome of that call (\<open>Some e\<close>: it throws
  \<open>e\<close>), and the invocations between the return of \<^verbatim>\<open>cancelAsync\<close> and the resumption
  of \<^verbatim>\<open>start\<close>.
\<close>

record cancel_env =
  cancels_during_cancel :: nat
  cancel_reply :: "Exception option"
  cancels_on_return :: nat

text \<open>
  \<^verbatim>\<open>cancelAsync(taskId)\<close>: its \<^verbatim>\<open>catch\<close> takes every error of the remote cancel call,
  so it always completes.
\<close>

definition cancelAsync ::
  "cancel_env \<Rightarrow> string option \<Rightarrow> SQLQueryExecutionProcess \<Rightarrow> SQLQueryExecutionProcess" where
  "cancelAsync ce tid c =
     (if isCancelConfirmed c then c
      else let c1 = emit (AsyncTaskCancel tid (cancel_reply ce))
                      (cancel_times (cancels_during_cancel ce) c)
           in case cancel_reply ce of
                None \<Rightarrow> c1\<lparr>isCancelConfirmed := True\<rparr>
              | Some e \<Rightarrow>
                  if getState c1 = CANCELLING
                  then logException e ''Failed to cancel async task'' (toPending c1)
                  else c1)"

text \<open>
  The two checkpoints of \<^verbatim>\<open>start\<close>:
  \<^verbatim>\<open>if (this.getState() === EDeferredState.CANCELLING) await this.cancelAsync(this.taskId)\<close>.
\<close>

definition cancel_checkpoint ::
  "cancel_env \<Rightarrow> SQLQueryExecutionProcess \<Rightarrow> SQLQueryExecutionProcess" where
  "cancel_checkpoint ce c =
     (if getState c = CANCELLING
      then cancel_times (cancels_on_return ce) (cancelAsync ce (taskId c) c)
      else c)"

text \<open>The environment of one iteration of the poll loop.\<close>

record poll_env =
  loop_cancel :: cancel_env
  cancels_during_status :: nat
  status_reply :: "Exception + AsyncTaskInfo"
  cancels_during_delay :: nat

datatype Step = Return SQLQueryExecutionProcess | Continue SQLQueryExecutionProcess

text \<open>
  The first \<^verbatim>\<open>try\<close> of the loop body: the status check. Its \<^verbatim>\<open>catch\<close> takes what the
  remote call throws and what \<^verbatim>\<open>applyResult\<close> throws.
\<close>

definition check_status :: "poll_env \<Rightarrow> SQLQueryExecutionProcess \<Rightarrow> Step" where
  "check_status pe c =
     (let c1 = emit (AsyncTaskStatus (taskId c) (status_reply pe))
                 (cancel_times (cancels_during_status pe) c)
      in case status_reply pe of
           Inl e \<Rightarrow> Continue (logException e ''Failed to check async task status'' c1)
         | Inr taskInfo \<Rightarrow>
             (case applyResult taskInfo c1 of
                Normal c2 \<Rightarrow> if isFinished c2 then Return c2 else Continue c2
              | Throw e c2 \<Rightarrow>
                  Continue (logException e ''Failed to check async task status'' c2)))"

text \<open>The second \<^verbatim>\<open>try\<close> of the loop body: the delay, whose rejection is swallowed.\<close>

definition delay :: "nat \<Rightarrow> SQLQueryExecutionProcess \<Rightarrow> SQLQueryExecutionProcess" where
  "delay k c =
     (let c1 = emit (CancellableTimeout DELAY_BETWEEN_TRIES) (c\<lparr>timeout := Some TimerActive\<rparr>);
          c2 = cancel_times k c1
      in c2\<lparr>timeout := map_option settle_timer (timeout c2)\<rparr>)"

text \<open>
  The body of the loop: the checkpoint, the status check with its \<^verbatim>\<open>return\<close> when the
  result is finished, and the delay.
\<close>

definition iteration :: "poll_env \<Rightarrow> SQLQueryExecutionProcess \<Rightarrow> Step" where
  "iteration pe c =
     (case check_status pe (cancel_checkpoint (loop_cancel pe) c) of
        Return c1 \<Rightarrow> Return c1
      | Continue c1 \<Rightarrow> Continue (delay (cancels_during_delay pe) c1))"

text \<open>
  The outcome of \<^verbatim>\<open>start\<close>: it returned, it threw, or it is still suspended because
  the environment has said nothing further (the remote may report a running task
  forever).
\<close>

datatype Outcome =
    Returned SQLQueryExecutionProcess
  | Uncaught Exception SQLQueryExecutionProcess
  | Suspended SQLQueryExecutionProcess

fun process_of :: "Outcome \<Rightarrow> SQLQueryExecutionProcess" where
  "process_of (Returned c) = c"
| "process_of (Uncaught e c) = c"
| "process_of (Suspended c) = c"

text \<open>
  \<^verbatim>\<open>while (this.isInProgress) { ... }\<close>. The loop runs as long as the environment
  answers; when the list of answers is used up and the result is still in progress,
  \<^verbatim>\<open>start\<close> has not returned.
\<close>

fun poll_loop :: "poll_env list \<Rightarrow> SQLQueryExecutionProcess \<Rightarrow> Outcome" where
  "poll_loop [] c = (if isInProgress c then Suspended c else Returned c)"
| "poll_loop (pe # pes) c =
     (if isInProgress c
      then case iteration pe c of
             Return c1 \<Rightarrow> Returned c1
           | Continue c1 \<Rightarrow> poll_loop pes c1
      else Returned c)"

record start_env =
  cancels_during_submit :: nat
  submit_reply :: "Exception + AsyncTaskInfo"
  submit_cancel :: cancel_env
  polls :: "poll_env list"

text \<open>
  The first \<^verbatim>\<open>try\<close> block of \<^verbatim>\<open>start\<close>, up to its \<^verbatim>\<open>catch\<close>: the submission, the
  status it returns, the task identifier, the checkpoint.
\<close>

definition submit ::
  "ISqlQueryParams \<Rightarrow> int \<Rightarrow> int \<Rightarrow> start_env \<Rightarrow> SQLQueryExecutionProcess \<Rightarrow> Completion" where
  "submit sqlQueryParams rowOffset count env c =
     (let c1 = emit (AsyncSqlExecuteQuery sqlQueryParams rowOffset count (submit_reply env))
                 (cancel_times (cancels_during_submit env) c)
      in case submit_reply env of
           Inl e \<Rightarrow> Throw e c1
         | Inr taskInfo \<Rightarrow>
             (case applyResult taskInfo c1 of
                Throw e c2 \<Rightarrow> Throw e c2
              | Normal c2 \<Rightarrow>
                  Normal (cancel_checkpoint (submit_cancel env)
                            (c2\<lparr>taskId := Some (id' taskInfo)\<rparr>))))"

text \<open>
  \<^verbatim>\<open>start(sqlQueryParams, rowOffset, count)\<close>: the \<^verbatim>\<open>catch\<close> of the first block routes
  what was thrown to \<^verbatim>\<open>onError\<close> and returns; otherwise the loop runs unless the
  result is finished.
\<close>

definition start ::
  "ISqlQueryParams \<Rightarrow> int \<Rightarrow> int \<Rightarrow> start_env \<Rightarrow> SQLQueryExecutionProcess \<Rightarrow> Outcome" where
  "start sqlQueryParams rowOffset count env c =
     (case submit sqlQueryParams rowOffset count env c of
        Throw e c1 \<Rightarrow>
          (case onError e None c1 of
             Normal c2 \<Rightarrow> Returned c2
           | Throw e' c2 \<Rightarrow> Uncaught e' c2)
      | Normal c1 \<Rightarrow>
          if isFinished c1 then Returned c1 else poll_loop (polls env) c1)"

text \<open>
  One controller instance from its construction on: \<^verbatim>\<open>cancel()\<close> is invoked \<open>before\<close>
  times before \<^verbatim>\<open>start\<close> is called, \<^verbatim>\<open>start\<close> runs against the environment, and
  \<^verbatim>\<open>cancel()\<close> is invoked \<open>after\<close> times once \<^verbatim>\<open>start\<close> has returned or while it
  stays suspended.
\<close>

definition execution ::
  "nat \<Rightarrow> ISqlQueryParams \<Rightarrow> int \<Rightarrow> int \<Rightarrow> start_env \<Rightarrow> nat \<Rightarrow> SQLQueryExecutionProcess" where
  "execution before sqlQueryParams rowOffset count env after =
     cancel_times after
       (process_of (start sqlQueryParams rowOffset count env (cancel_times before new_process)))"

section \<open>Properties of a trace\<close>

text \<open>
  \<open>confirmed b es\<close> is the value of \<^verbatim>\<open>isCancelConfirmed\<close> after the events \<open>es\<close> when
  it was \<open>b\<close> before them: the flag is set when a remote cancel call succeeds.
\<close>

fun confirmed :: "bool \<Rightarrow> Event list \<Rightarrow> bool" where
  "confirmed b [] = b"
| "confirmed b (AsyncTaskCancel tid r # es) = confirmed (b \<or> r = None) es"
| "confirmed b (e # es) = confirmed b es"

text \<open>Every remote cancel call of \<open>es\<close> is issued while the flag is false.\<close>

fun gated :: "bool \<Rightarrow> Event list \<Rightarrow> bool" where
  "gated b [] = True"
| "gated b (AsyncTaskCancel tid r # es) = (\<not> b \<and> gated (b \<or> r = None) es)"
| "gated b (e # es) = gated b es"

text \<open>No transition to Pending happens while the flag is true.\<close>

fun no_rollback :: "bool \<Rightarrow> Event list \<Rightarrow> bool" where
  "no_rollback b [] = True"
| "no_rollback b (AsyncTaskCancel tid r # es) = no_rollback (b \<or> r = None) es"
| "no_rollback b (Transition s s' # es) = (\<not> (b \<and> s' = PENDING) \<and> no_rollback b es)"
| "no_rollback b (e # es) = no_rollback b es"

text \<open>
  \<open>reported e m es\<close>: the first event of \<open>es\<close> that is not a transition of the deferred
  result is the report of \<open>e\<close> with the message \<open>m\<close> to the logging collaborator.
\<close>

fun reported :: "Exception \<Rightarrow> string \<Rightarrow> Event list \<Rightarrow> bool" where
  "reported e m (LogException e' m' # es) = (e' = e \<and> m' = m)"
| "reported e m (Transition s s' # es) = reported e m es"
| "reported e m es = False"

text \<open>Every failed status check and every failed remote cancel call is reported.\<close>

fun faults_logged :: "Event list \<Rightarrow> bool" where
  "faults_logged [] = True"
| "faults_logged (AsyncTaskStatus tid (Inl e) # es) =
     (reported e ''Failed to check async task status'' es \<and> faults_logged es)"
| "faults_logged (AsyncTaskCancel tid (Some e) # es) =
     (reported e ''Failed to cancel async task'' es \<and> faults_logged es)"
| "faults_logged (e # es) = faults_logged es"

definition entered_from_pending :: "Event list \<Rightarrow> bool" where
  "entered_from_pending es \<longleftrightarrow> (\<forall>s. Transition s CANCELLING \<in> set es \<longrightarrow> s = PENDING)"

text \<open>
  \<open>follows c c'\<close>: the controller \<open>c'\<close> is reached from \<open>c\<close> by events that respect
  the four properties above.
\<close>

definition follows :: "SQLQueryExecutionProcess \<Rightarrow> SQLQueryExecutionProcess \<Rightarrow> bool" where
  "follows c c' \<longleftrightarrow>
     (\<exists>ev. trace c' = trace c @ ev \<and>
        gated (isCancelConfirmed c) ev \<and>
        confirmed (isCancelConfirmed c) ev = isCancelConfirmed c' \<and>
        no_rollback (isCancelConfirmed c) ev \<and>
        faults_logged ev \<and>
        entered_from_pending ev)"

text \<open>The status calls and the delays of a trace, in their order.\<close>

datatype PollMark = StatusCall | Delay nat

fun poll_marks :: "Event list \<Rightarrow> PollMark list" where
  "poll_marks [] = []"
| "poll_marks (AsyncTaskStatus tid r # es) = StatusCall # poll_marks es"
| "poll_marks (CancellableTimeout ms # es) = Delay ms # poll_marks es"
| "poll_marks (e # es) = poll_marks es"

fun is_remote_call :: "Event \<Rightarrow> bool" where
  "is_remote_call (AsyncSqlExecuteQuery p off cnt r) = True"
| "is_remote_call (AsyncTaskStatus tid r) = True"
| "is_remote_call (AsyncTaskCancel tid r) = True"
| "is_remote_call e = False"

fun is_cancel_call :: "Event \<Rightarrow> bool" where
  "is_cancel_call (AsyncTaskCancel tid r) = True"
| "is_cancel_call e = False"

fun is_failed_cancel :: "Event \<Rightarrow> bool" where
  "is_failed_cancel (AsyncTaskCancel tid (Some e)) = True"
| "is_failed_cancel e = False"

definition cancel_calls :: "Event list \<Rightarrow> nat" where
  "cancel_calls es = length (filter is_cancel_call es)"

definition failed_cancel_calls :: "Event list \<Rightarrow> nat" where
  "failed_cancel_calls es = length (filter is_failed_cancel es)"

section \<open>Concrete inputs\<close>

definition example_params :: ISqlQueryParams where
  "example_params = \<lparr>connectionId = ''c1'', contextId = ''ctx1'', query = ''select 1''\<rparr>"

definition task_running :: AsyncTaskInfo where
  "task_running = \<lparr>id' = ''t1'', running = True, error = None, result = None, status = None\<rparr>"

definition task_result :: AsyncTaskInfo where
  "task_result = \<lparr>id' = ''t1'', running = False, error = None,
     result = Some (SqlExecuteInfo ''rows''), status = Some ''done''\<rparr>"

definition task_error :: AsyncTaskInfo where
  "task_error = \<lparr>id' = ''t1'', running = False, error = Some (ServerError ''stopped''),
     result = None, status = Some ''stopped''\<rparr>"

definition task_empty :: AsyncTaskInfo where
  "task_empty = \<lparr>id' = ''t1'', running = False, error = None, result = None, status = None\<rparr>"

definition cancel_ok :: cancel_env where
  "cancel_ok = \<lparr>cancels_during_cancel = 0, cancel_reply = None, cancels_on_return = 0\<rparr>"

definition cancel_fails :: cancel_env where
  "cancel_fails = \<lparr>cancels_during_cancel = 0, cancel_reply = Some (GQLError ''network''),
     cancels_on_return = 0\<rparr>"

definition poll_running :: poll_env where
  "poll_running = \<lparr>loop_cancel = cancel_ok, cancels_during_status = 0,
     status_reply = Inr task_running, cancels_during_delay = 0\<rparr>"

definition poll_result :: poll_env where
  "poll_result = \<lparr>loop_cancel = cancel_ok, cancels_during_status = 0,
     status_reply = Inr task_result, cancels_during_delay = 0\<rparr>"

definition poll_error :: poll_env where
  "poll_error = \<lparr>loop_cancel = cancel_ok, cancels_during_status = 0,
     status_reply = Inr task_error, cancels_during_delay = 0\<rparr>"

definition poll_timeout :: poll_env where
  "poll_timeout = \<lparr>loop_cancel = cancel_ok, cancels_during_status = 0,
     status_reply = Inl (GQLError ''timeout''), cancels_during_delay = 0\<rparr>"

text \<open>Two polls report a running task, the third one the result.\<close>

definition two_polls_env :: start_env where
  "two_polls_env =
     \<lparr>cancels_during_submit = 0, submit_reply = Inr task_running, submit_cancel = cancel_ok,
      polls = [poll_running, poll_running, poll_result]\<rparr>"

text \<open>
  \<^verbatim>\<open>cancel()\<close> during the submission, the remote cancel call succeeds, the first status
  check reports the stopped task.
\<close>

definition cancelled_env :: start_env where
  "cancelled_env =
     \<lparr>cancels_during_submit = 1, submit_reply = Inr task_running, submit_cancel = cancel_ok,
      polls = [poll_error]\<rparr>"

text \<open>
  \<^verbatim>\<open>cancel()\<close> during the submission, the remote cancel call fails; \<^verbatim>\<open>cancel()\<close> again
  during the first status check, the second remote cancel call succeeds.
\<close>

definition retry_env :: start_env where
  "retry_env =
     \<lparr>cancels_during_submit = 1, submit_reply = Inr task_running, submit_cancel = cancel_fails,
      polls = [poll_running\<lparr>cancels_during_status := 1\<rparr>, poll_error]\<rparr>"

text \<open>The first status check fails, the second one reports the result.\<close>

definition flaky_env :: start_env where
  "flaky_env =
     \<lparr>cancels_during_submit = 0, submit_reply = Inr task_running, submit_cancel = cancel_ok,
      polls = [poll_timeout, poll_result]\<rparr>"

text \<open>\<^verbatim>\<open>cancel()\<close> during a submission that answers with a finished task.\<close>

definition early_error_env :: start_env where
  "early_error_env =
     \<lparr>cancels_during_submit = 1, submit_reply = Inr task_error, submit_cancel = cancel_ok,
      polls = []\<rparr>"

definition early_result_env :: start_env where
  "early_result_env =
     \<lparr>cancels_during_submit = 1, submit_reply = Inr task_result, submit_cancel = cancel_ok,
      polls = []\<rparr>"

definition submit_fails_env :: start_env where
  "submit_fails_env =
     \<lparr>cancels_during_submit = 0, submit_reply = Inl (GQLError ''network''),
      submit_cancel = cancel_ok, polls = []\<rparr>"

section \<open>Basic facts\<close>

lemmas deferred_defs = getState_def isInProgress_def isFinished_def emit_def transition_def
  toResolved_def toRejected_def toCancelling_def toCancelled_def toPending_def logException_def

lemmas controller_defs = onError_def applyResult_def cancel_def cancelAsync_def
  cancel_checkpoint_def check_status_def delay_def iteration_def submit_def start_def
  execution_def new_process_def canceled_message_def DELAY_BETWEEN_TRIES_def

lemma cancel_not_pending: "state c \<noteq> PENDING \<Longrightarrow> cancel c = c"
  by (simp add: cancel_def getState_def)

lemma state_cancel: "state (cancel c) = (if state c = PENDING then CANCELLING else state c)"
  by (simp add: cancel_def deferred_defs Let_def split: option.splits)

lemma cancel_idem: "cancel (cancel c) = cancel c"
  by (rule cancel_not_pending) (simp add: state_cancel)

lemma cancel_times_cancel: "cancel_times k (cancel c) = cancel c"
  by (induction k) (simp_all add: cancel_idem)

lemma cancel_times_eq: "cancel_times k c = (if k = 0 then c else cancel c)"
  by (cases k) (simp_all add: cancel_times_cancel)

lemma cancel_times_not_pending: "state c \<noteq> PENDING \<Longrightarrow> cancel_times k c = c"
  by (simp add: cancel_times_eq cancel_not_pending)

lemma cancel_times_fresh:
  "0 < k \<Longrightarrow> cancel_times k new_process =
     new_process\<lparr>state := CANCELLING, trace := [Transition PENDING CANCELLING]\<rparr>"
  by (simp add: cancel_times_eq cancel_def deferred_defs Let_def new_process_def)

lemma taskId_cancel_times [simp]: "taskId (cancel_times k c) = taskId c"
  by (simp add: cancel_times_eq cancel_def deferred_defs Let_def split: option.splits)

lemma finished_not_inProgress: "isFinished c = (\<not> isInProgress c)"
  by (cases "state c") (simp_all add: isInProgress_def isFinished_def)

lemma onError_routes:
  "(getState c = CANCELLING \<longrightarrow>
      onError e st c =
        Normal (c\<lparr>state := CANCELLED,
                  trace := trace c @ [Transition CANCELLING CANCELLED,
                                      LogException e (canceled_message st)]\<rparr>)) \<and>
   (getState c = PENDING \<longrightarrow>
      onError e st c =
        Normal (c\<lparr>state := REJECTED, rejectionReason := Some e,
                  trace := trace c @ [Transition PENDING REJECTED]\<rparr>)) \<and>
   (getState c \<noteq> CANCELLING \<longrightarrow> onError e st c = toRejected e c)"
  by (simp add: onError_def deferred_defs)

lemma cancel_frame:
  "(getState c \<noteq> PENDING \<longrightarrow> cancel c = c) \<and>
   (getState c = PENDING \<longrightarrow>
      cancel c = c\<lparr>state := CANCELLING,
                    timeout := map_option cancel_timer (timeout c),
                    trace := trace c @ [Transition PENDING CANCELLING]\<rparr>)"
  by (auto simp add: cancel_def deferred_defs Let_def split: option.splits)

lemma cancelAsync_cases:
  "(isCancelConfirmed c \<longrightarrow> cancelAsync ce tid c = c) \<and>
   (\<not> isCancelConfirmed c \<longrightarrow> getState c = CANCELLING \<longrightarrow> cancel_reply ce = None \<longrightarrow>
      cancelAsync ce tid c =
        c\<lparr>isCancelConfirmed := True, trace := trace c @ [AsyncTaskCancel tid None]\<rparr>) \<and>
   (\<not> isCancelConfirmed c \<longrightarrow> getState c = CANCELLING \<longrightarrow> cancel_reply ce = Some e \<longrightarrow>
      cancelAsync ce tid c =
        c\<lparr>state := PENDING,
          trace := trace c @ [AsyncTaskCancel tid (Some e), Transition CANCELLING PENDING,
                              LogException e ''Failed to cancel async task'']\<rparr>)"
  by (simp add: cancelAsync_def deferred_defs cancel_times_not_pending Let_def)

section \<open>The controller stays in progress until it finishes\<close>

lemma inProgress_cancel: "isInProgress (cancel c) = isInProgress c"
  by (auto simp: isInProgress_def state_cancel)

lemma inProgress_cancel_times: "isInProgress (cancel_times k c) = isInProgress c"
  by (simp add: cancel_times_eq inProgress_cancel)

lemma inProgress_fresh: "isInProgress (cancel_times before new_process)"
  by (simp add: inProgress_cancel_times) (simp add: isInProgress_def new_process_def)

lemma inProgress_cancelAsync: "isInProgress c \<Longrightarrow> isInProgress (cancelAsync ce tid c)"
  by (auto simp: cancelAsync_def Let_def deferred_defs cancel_times_eq state_cancel
        split: option.splits)

lemma inProgress_cancel_checkpoint: "isInProgress c \<Longrightarrow> isInProgress (cancel_checkpoint ce c)"
  by (simp add: cancel_checkpoint_def inProgress_cancel_times inProgress_cancelAsync)

lemma onError_inProgress: "isInProgress c \<Longrightarrow> \<exists>c'. onError e st c = Normal c' \<and> isFinished c'"
  by (auto simp: onError_def deferred_defs)

lemma applyResult_inProgress:
  "isInProgress c \<Longrightarrow> \<exists>c'. applyResult ti c = Normal c' \<and> (isFinished c' \<or> isInProgress c')"
  using onError_inProgress[of c]
  by (auto simp: applyResult_def toResolved_def transition_def emit_def isFinished_def
        split: option.splits)

lemma inProgress_emit [simp]: "isInProgress (emit e c) = isInProgress c"
  by (simp add: isInProgress_def emit_def)

lemma inProgress_log [simp]: "isInProgress (logException e m c) = isInProgress c"
  by (simp add: logException_def)

lemma check_status_inProgress:
  assumes "isInProgress c"
  shows "(\<exists>c'. check_status pe c = Return c' \<and> isFinished c') \<or>
     (\<exists>c'. check_status pe c = Continue c' \<and> isInProgress c')"
proof (cases "status_reply pe")
  case (Inl e)
  with assms show ?thesis
    by (simp add: check_status_def Let_def inProgress_cancel_times)
next
  case (Inr ti)
  let ?c1 = "emit (AsyncTaskStatus (taskId c) (Inr ti)) (cancel_times (cancels_during_status pe) c)"
  from assms have "isInProgress ?c1" by (simp add: inProgress_cancel_times)
  from applyResult_inProgress[OF this, of ti]
  obtain c' where "applyResult ti ?c1 = Normal c'" "isFinished c' \<or> isInProgress c'" by blast
  with Inr show ?thesis
    by (auto simp: check_status_def Let_def)
qed

lemma inProgress_delay: "isInProgress (delay k c) = isInProgress c"
proof -
  have "isInProgress (delay k c) =
        isInProgress (cancel_times k (emit (CancellableTimeout DELAY_BETWEEN_TRIES)
                                        (c\<lparr>timeout := Some TimerActive\<rparr>)))"
    by (simp add: delay_def Let_def isInProgress_def)
  then show ?thesis by (simp add: inProgress_cancel_times) (simp add: isInProgress_def)
qed

lemma iteration_inProgress:
  "isInProgress c \<Longrightarrow>
     (\<exists>c'. iteration pe c = Return c' \<and> isFinished c') \<or>
     (\<exists>c'. iteration pe c = Continue c' \<and> isInProgress c')"
  using check_status_inProgress[OF inProgress_cancel_checkpoint, of c pe "loop_cancel pe"]
  by (auto simp: iteration_def inProgress_delay)

lemma poll_loop_outcome:
  "(\<exists>c'. poll_loop pes c = Returned c' \<and> isFinished c') \<or>
   (\<exists>c'. poll_loop pes c = Suspended c' \<and> isInProgress c')"
proof (induction pes arbitrary: c)
  case Nil
  then show ?case by (simp add: finished_not_inProgress)
next
  case (Cons pe pes)
  show ?case
  proof (cases "isInProgress c")
    case True
    from iteration_inProgress[OF True, of pe] show ?thesis
    proof (elim disjE exE conjE)
      fix c' assume "iteration pe c = Return c'" "isFinished c'"
      with True show ?thesis by simp
    next
      fix c' assume "iteration pe c = Continue c'" "isInProgress c'"
      with True Cons[of c'] show ?thesis by simp
    qed
  next
    case False
    then show ?thesis by (simp add: finished_not_inProgress)
  qed
qed

lemma submit_inProgress:
  assumes "isInProgress c"
  shows "(\<exists>c'. submit p off cnt env c = Normal c' \<and> (isFinished c' \<or> isInProgress c')) \<or>
         (\<exists>e c'. submit p off cnt env c = Throw e c' \<and> isInProgress c')"
proof (cases "submit_reply env")
  case (Inl e)
  with assms show ?thesis
    by (simp add: submit_def Let_def inProgress_cancel_times)
next
  case (Inr ti)
  let ?c1 = "emit (AsyncSqlExecuteQuery p off cnt (Inr ti))
               (cancel_times (cancels_during_submit env) c)"
  from assms have "isInProgress ?c1" by (simp add: inProgress_cancel_times)
  from applyResult_inProgress[OF this, of ti]
  obtain c2 where c2: "applyResult ti ?c1 = Normal c2" "isFinished c2 \<or> isInProgress c2"
    by blast
  let ?c3 = "c2\<lparr>taskId := Some (id' ti)\<rparr>"
  have "isFinished (cancel_checkpoint (submit_cancel env) ?c3) \<or>
        isInProgress (cancel_checkpoint (submit_cancel env) ?c3)"
    by (simp add: finished_not_inProgress)
  with Inr c2 show ?thesis
    by (simp add: submit_def Let_def)
qed

lemma start_outcome:
  assumes "isInProgress c"
  shows "(\<exists>c'. start p off cnt env c = Returned c' \<and> isFinished c') \<or>
   (\<exists>c'. start p off cnt env c = Suspended c' \<and> isInProgress c')"
proof (cases "submit p off cnt env c")
  case (Normal c')
  then show ?thesis using poll_loop_outcome[of "polls env" c']
    by (auto simp: start_def finished_not_inProgress)
next
  case (Throw e c')
  with submit_inProgress[OF assms, of p off cnt env] have "isInProgress c'" by auto
  from onError_inProgress[OF this, of e None] Throw show ?thesis
    by (auto simp: start_def)
qed

section \<open>What every step adds to the trace\<close>

lemma confirmed_append: "confirmed b (xs @ ys) = confirmed (confirmed b xs) ys"
  by (induction b xs rule: confirmed.induct) simp_all

lemma gated_append: "gated b (xs @ ys) = (gated b xs \<and> gated (confirmed b xs) ys)"
  by (induction b xs rule: gated.induct) simp_all

lemma no_rollback_append:
  "no_rollback b (xs @ ys) = (no_rollback b xs \<and> no_rollback (confirmed b xs) ys)"
  by (induction b xs rule: no_rollback.induct) simp_all

lemma reported_append: "reported e m xs \<Longrightarrow> reported e m (xs @ ys)"
  by (induction e m xs rule: reported.induct) simp_all

lemma faults_logged_append:
  "faults_logged xs \<Longrightarrow> faults_logged ys \<Longrightarrow> faults_logged (xs @ ys)"
  by (induction xs rule: faults_logged.induct) (simp_all add: reported_append)

lemma entered_from_pending_append:
  "entered_from_pending (xs @ ys) = (entered_from_pending xs \<and> entered_from_pending ys)"
  by (auto simp: entered_from_pending_def)

lemma confirmed_True [simp]: "confirmed True es = True"
proof (induction es)
  case (Cons e es)
  then show ?case by (cases e) simp_all
qed simp

lemma follows_refl: "follows c c"
  by (simp add: follows_def entered_from_pending_def)

lemma follows_trans:
  assumes "follows a b" "follows b c"
  shows "follows a c"
proof -
  from assms(1) obtain ev1 where 1: "trace b = trace a @ ev1"
    "gated (isCancelConfirmed a) ev1" "confirmed (isCancelConfirmed a) ev1 = isCancelConfirmed b"
    "no_rollback (isCancelConfirmed a) ev1" "faults_logged ev1" "entered_from_pending ev1"
    unfolding follows_def by blast
  from assms(2) obtain ev2 where 2: "trace c = trace b @ ev2"
    "gated (isCancelConfirmed b) ev2" "confirmed (isCancelConfirmed b) ev2 = isCancelConfirmed c"
    "no_rollback (isCancelConfirmed b) ev2" "faults_logged ev2" "entered_from_pending ev2"
    unfolding follows_def by blast
  from 1 2 have "trace c = trace a @ (ev1 @ ev2) \<and>
        gated (isCancelConfirmed a) (ev1 @ ev2) \<and>
        confirmed (isCancelConfirmed a) (ev1 @ ev2) = isCancelConfirmed c \<and>
        no_rollback (isCancelConfirmed a) (ev1 @ ev2) \<and>
        faults_logged (ev1 @ ev2) \<and>
        entered_from_pending (ev1 @ ev2)"
    by (simp add: gated_append confirmed_append no_rollback_append faults_logged_append
          entered_from_pending_append)
  then show ?thesis unfolding follows_def by blast
qed

lemma follows_cancel: "follows c (cancel c)"
  by (simp add: follows_def cancel_def deferred_defs Let_def entered_from_pending_def
        split: option.splits)

lemma follows_cancel_times: "follows c (cancel_times k c)"
  by (simp add: cancel_times_eq follows_refl follows_cancel)

lemma follows_cancelAsync: "getState c = CANCELLING \<Longrightarrow> follows c (cancelAsync ce tid c)"
  by (simp add: follows_def cancelAsync_def deferred_defs cancel_times_not_pending Let_def
        entered_from_pending_def split: option.splits)

lemma follows_cancel_checkpoint: "follows c (cancel_checkpoint ce c)"
  unfolding cancel_checkpoint_def
  by (auto intro: follows_refl follows_trans[OF follows_cancelAsync follows_cancel_times])

lemma follows_onError: "onError e st c = Normal c' \<Longrightarrow> follows c c'"
  by (auto simp add: follows_def onError_def deferred_defs entered_from_pending_def
        split: if_splits)

lemma onError_Throw:
  "onError e st c = Throw e' c' \<Longrightarrow> c' = c \<and> e' = DeferredFault \<and> isFinished c"
  by (cases "state c") (auto simp add: onError_def deferred_defs split: if_splits)

lemma follows_applyResult: "applyResult ti c = Normal c' \<Longrightarrow> follows c c'"
  by (auto simp add: applyResult_def toResolved_def transition_def emit_def follows_refl
        follows_def entered_from_pending_def
      split: if_splits option.splits dest: follows_onError)

lemma applyResult_Throw:
  "applyResult ti c = Throw e' c' \<Longrightarrow> c' = c \<and> e' = DeferredFault \<and> isFinished c"
  by (cases "state c")
     (auto simp add: applyResult_def toResolved_def isInProgress_def isFinished_def
        split: if_splits option.splits dest: onError_Throw)

lemma follows_log: "follows c c' \<Longrightarrow> follows c (logException e m c')"
  by (auto simp: follows_def logException_def emit_def gated_append confirmed_append
        no_rollback_append faults_logged_append entered_from_pending_append
        entered_from_pending_def)

lemma follows_status_event: "follows c (emit (AsyncTaskStatus tid (Inr ti)) c)"
  by (simp add: follows_def emit_def entered_from_pending_def)

lemma follows_status_failure:
  "follows c (logException e ''Failed to check async task status''
                (emit (AsyncTaskStatus tid (Inl e)) c))"
  by (simp add: follows_def emit_def logException_def entered_from_pending_def)

lemma follows_check_status:
  assumes "check_status pe c = Return c' \<or> check_status pe c = Continue c'"
  shows "follows c c'"
proof (cases "status_reply pe")
  case (Inl e)
  with assms show ?thesis
    by (auto simp: check_status_def Let_def
          intro: follows_trans[OF follows_cancel_times follows_status_failure])
next
  case (Inr ti)
  let ?c1 = "emit (AsyncTaskStatus (taskId c) (Inr ti)) (cancel_times (cancels_during_status pe) c)"
  have c1: "follows c ?c1"
    by (rule follows_trans[OF follows_cancel_times follows_status_event])
  show ?thesis
  proof (cases "applyResult ti ?c1")
    case (Normal c2)
    then have "follows c c2" using c1 by (blast intro: follows_trans follows_applyResult)
    with assms Inr Normal show ?thesis
      by (auto simp: check_status_def Let_def split: if_splits)
  next
    case (Throw e c2)
    then have "c2 = ?c1" by (auto dest: applyResult_Throw)
    with assms Inr Throw c1 show ?thesis
      by (auto simp: check_status_def Let_def intro: follows_log)
  qed
qed

lemma follows_delay: "follows c (delay k c)"
proof -
  let ?c1 = "emit (CancellableTimeout DELAY_BETWEEN_TRIES) (c\<lparr>timeout := Some TimerActive\<rparr>)"
  have a: "follows c ?c1"
    by (simp add: follows_def emit_def entered_from_pending_def)
  have b: "follows ?c1 (cancel_times k ?c1)"
    by (rule follows_cancel_times)
  have c: "follows (cancel_times k ?c1) (delay k c)"
    by (simp add: follows_def delay_def Let_def entered_from_pending_def)
  from a b c show ?thesis by (blast intro: follows_trans)
qed

lemma follows_iteration:
  assumes "iteration pe c = Return c' \<or> iteration pe c = Continue c'"
  shows "follows c c'"
proof (cases "check_status pe (cancel_checkpoint (loop_cancel pe) c)")
  case (Return c1)
  then have "follows c c1"
    by (blast intro: follows_trans follows_cancel_checkpoint follows_check_status)
  with assms Return show ?thesis by (simp add: iteration_def)
next
  case (Continue c1)
  then have "follows c c1"
    by (blast intro: follows_trans follows_cancel_checkpoint follows_check_status)
  then have "follows c (delay (cancels_during_delay pe) c1)"
    by (blast intro: follows_trans follows_delay)
  with assms Continue show ?thesis by (simp add: iteration_def)
qed

lemma follows_poll_loop: "follows c (process_of (poll_loop pes c))"
proof (induction pes arbitrary: c)
  case Nil
  then show ?case by (simp add: follows_refl)
next
  case (Cons pe pes)
  show ?case
  proof (cases "iteration pe c")
    case (Return c1)
    then show ?thesis by (auto simp: follows_refl intro: follows_iteration)
  next
    case (Continue c1)
    then have "follows c c1" by (auto intro: follows_iteration)
    with Cons[of c1] Continue show ?thesis
      by (auto simp: follows_refl intro: follows_trans)
  qed
qed

lemma follows_submit_event: "follows c (emit (AsyncSqlExecuteQuery p off cnt r) c)"
  by (simp add: follows_def emit_def entered_from_pending_def)

lemma follows_taskId: "follows c c' \<Longrightarrow> follows c (c'\<lparr>taskId := t\<rparr>)"
  by (simp add: follows_def)

lemma follows_submit:
  assumes "submit p off cnt env c = Normal c' \<or> submit p off cnt env c = Throw e c'"
  shows "follows c c'"
proof -
  let ?c1 = "emit (AsyncSqlExecuteQuery p off cnt (submit_reply env))
               (cancel_times (cancels_during_submit env) c)"
  have c1: "follows c ?c1"
    by (rule follows_trans[OF follows_cancel_times follows_submit_event])
  show ?thesis
  proof (cases "submit_reply env")
    case (Inl x)
    with assms c1 show ?thesis by (auto simp: submit_def Let_def)
  next
    case (Inr ti)
    show ?thesis
    proof (cases "applyResult ti ?c1")
      case (Normal c2)
      then have "follows ?c1 c2" by (rule follows_applyResult)
      with c1 have "follows c (c2\<lparr>taskId := Some (id' ti)\<rparr>)"
        by (blast intro: follows_trans follows_taskId)
      then have "follows c (cancel_checkpoint (submit_cancel env) (c2\<lparr>taskId := Some (id' ti)\<rparr>))"
        by (blast intro: follows_trans follows_cancel_checkpoint)
      with assms Inr Normal show ?thesis by (auto simp: submit_def Let_def)
    next
      case (Throw x c2)
      then have "c2 = ?c1" by (auto dest: applyResult_Throw)
      with assms Inr Throw c1 show ?thesis by (auto simp: submit_def Let_def)
    qed
  qed
qed

lemma follows_start: "follows c (process_of (start p off cnt env c))"
proof (cases "submit p off cnt env c")
  case (Normal c1)
  then have "follows c c1" by (auto intro: follows_submit)
  then show ?thesis using Normal follows_poll_loop[of c1 "polls env"]
    by (auto simp: start_def intro: follows_trans)
next
  case (Throw e c1)
  then have f: "follows c c1" by (auto intro: follows_submit)
  show ?thesis
  proof (cases "onError e None c1")
    case (Normal c2)
    then have "follows c1 c2" by (rule follows_onError)
    with f Normal Throw show ?thesis by (auto simp: start_def intro: follows_trans)
  next
    case Throw2: (Throw e' c2)
    then have "c2 = c1" by (auto dest: onError_Throw)
    with f Throw2 Throw show ?thesis by (auto simp: start_def)
  qed
qed

lemma follows_execution: "follows new_process (execution b p off cnt env a)"
  unfolding execution_def
  by (blast intro: follows_trans follows_cancel_times follows_start)

lemma execution_trace:
  "gated False (trace (execution b p off cnt env a)) \<and>
   no_rollback False (trace (execution b p off cnt env a)) \<and>
   faults_logged (trace (execution b p off cnt env a)) \<and>
   entered_from_pending (trace (execution b p off cnt env a)) \<and>
   isCancelConfirmed (execution b p off cnt env a) =
     confirmed False (trace (execution b p off cnt env a))"
  using follows_execution[of b p off cnt env a]
  by (auto simp: follows_def new_process_def)

lemma gated_True_no_calls: "gated True es \<Longrightarrow> cancel_calls es = 0"
proof (induction es)
  case (Cons e es)
  then show ?case by (cases e) (simp_all add: cancel_calls_def)
qed (simp add: cancel_calls_def)

lemma gated_bound:
  "gated b es \<Longrightarrow> cancel_calls es \<le> failed_cancel_calls es + (if b then 0 else 1)"
proof (induction b es rule: gated.induct)
  case (2 b tid r es)
  then show ?case
    by (cases r) (auto simp: cancel_calls_def failed_cancel_calls_def dest: gated_True_no_calls)
qed (simp_all add: cancel_calls_def failed_cancel_calls_def)

lemma gated_after_confirm:
  "gated b (xs @ AsyncTaskCancel tid None # ys) \<Longrightarrow> cancel_calls ys = 0"
  by (simp add: gated_append gated_True_no_calls)

lemma no_rollback_True: "no_rollback True es \<Longrightarrow> Transition s PENDING \<notin> set es"
proof (induction es)
  case (Cons e es)
  then show ?case by (cases e) auto
qed simp

lemma no_rollback_after_confirm:
  "no_rollback b (xs @ AsyncTaskCancel tid None # ys) \<Longrightarrow> Transition s PENDING \<notin> set ys"
  by (simp add: no_rollback_append no_rollback_True)

lemma remote_calls_cancel:
  "filter is_remote_call (trace (cancel c)) = filter is_remote_call (trace c)"
  by (simp add: cancel_def deferred_defs Let_def split: option.splits)

section \<open>Steps of the poll loop\<close>

lemma cancel_checkpoint_confirming:
  assumes "state c = CANCELLING" "isCancelConfirmed c \<or> cancel_reply ce = None"
  shows "state (cancel_checkpoint ce c) = CANCELLING \<and>
         isCancelConfirmed (cancel_checkpoint ce c) \<and>
         rejectionReason (cancel_checkpoint ce c) = rejectionReason c"
  using assms
  by (auto simp: cancel_checkpoint_def cancelAsync_def getState_def emit_def Let_def
        cancel_times_not_pending)

lemma check_status_error_while_cancelling:
  assumes "state c = CANCELLING" "status_reply pe = Inr ti" "\<not> running ti" "error ti = Some se"
  shows "\<exists>c'. check_status pe c = Return c' \<and> state c' = CANCELLED \<and>
           rejectionReason c' = rejectionReason c \<and>
           LogException (ServerInternalError se) (canceled_message (status ti)) \<in> set (trace c')"
  using assms
  by (simp add: check_status_def Let_def cancel_times_not_pending applyResult_def onError_def
        deferred_defs)

lemma loop_error_while_cancelling:
  assumes "state c = CANCELLING" "isCancelConfirmed c \<or> cancel_reply (loop_cancel pe) = None"
    "status_reply pe = Inr ti" "\<not> running ti" "error ti = Some se"
  shows "\<exists>c'. poll_loop (pe # pes) c = Returned c' \<and> state c' = CANCELLED \<and>
           rejectionReason c' = rejectionReason c \<and>
           LogException (ServerInternalError se) (canceled_message (status ti)) \<in> set (trace c')"
proof -
  let ?c1 = "cancel_checkpoint (loop_cancel pe) c"
  from cancel_checkpoint_confirming[OF assms(1,2)]
  have c1: "state ?c1 = CANCELLING" "rejectionReason ?c1 = rejectionReason c" by simp_all
  from check_status_error_while_cancelling[OF c1(1) assms(3,4,5)] c1(2) assms(1)
  show ?thesis
    by (auto simp: iteration_def isInProgress_def)
qed

lemma submit_failure_routes:
  assumes "submit_reply env = Inl e"
  shows "start p off cnt env c =
           (case onError e None
                   (emit (AsyncSqlExecuteQuery p off cnt (Inl e))
                      (cancel_times (cancels_during_submit env) c)) of
              Normal c2 \<Rightarrow> Returned c2 | Throw e' c2 \<Rightarrow> Uncaught e' c2)"
  using assms by (simp add: start_def submit_def Let_def)

lemma loop_after_failed_cancel:
  assumes "state c = CANCELLING" "\<not> isCancelConfirmed c"
    "cancel_reply (loop_cancel pe) = Some e" "cancels_on_return (loop_cancel pe) = 0"
    "cancels_during_status pe = 0" "status_reply pe = Inr ti" "\<not> running ti"
  shows "(error ti = Some se \<longrightarrow>
            (\<exists>c'. poll_loop (pe # pes) c = Returned c' \<and> state c' = REJECTED \<and>
                  rejectionReason c' = Some (ServerInternalError se))) \<and>
         (error ti = None \<longrightarrow> result ti = Some r \<longrightarrow>
            (\<exists>c'. poll_loop (pe # pes) c = Returned c' \<and> state c' = RESOLVED \<and>
                  payload c' = Some r))"
  using assms
  by (simp add: isInProgress_def iteration_def cancel_checkpoint_def cancelAsync_def Let_def
        cancel_times_not_pending check_status_def applyResult_def onError_def deferred_defs)

lemma poll_marks_append: "poll_marks (xs @ ys) = poll_marks xs @ poll_marks ys"
  by (induction xs rule: poll_marks.induct) simp_all

lemma poll_marks_cancel: "poll_marks (trace (cancel c)) = poll_marks (trace c)"
  by (simp add: cancel_def deferred_defs Let_def poll_marks_append split: option.splits)

lemma poll_marks_cancel_times: "poll_marks (trace (cancel_times k c)) = poll_marks (trace c)"
  by (simp add: cancel_times_eq poll_marks_cancel)

lemma poll_marks_cancelAsync: "poll_marks (trace (cancelAsync ce tid c)) = poll_marks (trace c)"
  by (simp add: cancelAsync_def deferred_defs Let_def poll_marks_append poll_marks_cancel_times
        split: option.splits)

lemma poll_marks_cancel_checkpoint:
  "poll_marks (trace (cancel_checkpoint ce c)) = poll_marks (trace c)"
  by (simp add: cancel_checkpoint_def poll_marks_cancel_times poll_marks_cancelAsync)

lemma check_status_running:
  assumes "isInProgress c" "status_reply pe = Inr ti" "running ti"
  shows "\<exists>c'. check_status pe c = Continue c' \<and> isInProgress c' \<and>
           poll_marks (trace c') = poll_marks (trace c) @ [StatusCall]"
  using assms
  by (simp add: check_status_def Let_def applyResult_def finished_not_inProgress
        inProgress_cancel_times)
     (simp add: emit_def poll_marks_append poll_marks_cancel_times)

lemma poll_marks_delay:
  "poll_marks (trace (delay k c)) = poll_marks (trace c) @ [Delay DELAY_BETWEEN_TRIES]"
  by (simp add: delay_def Let_def poll_marks_cancel_times) (simp add: emit_def poll_marks_append)

lemma iteration_running:
  assumes "isInProgress c" "status_reply pe = Inr ti" "running ti"
  shows "\<exists>c'. iteration pe c = Continue c' \<and> isInProgress c' \<and>
           poll_marks (trace c') = poll_marks (trace c) @ [StatusCall, Delay DELAY_BETWEEN_TRIES]"
proof -
  let ?c1 = "cancel_checkpoint (loop_cancel pe) c"
  have "isInProgress ?c1" using assms(1) by (rule inProgress_cancel_checkpoint)
  from check_status_running[OF this assms(2,3)]
  obtain c2 where c2: "check_status pe ?c1 = Continue c2" "isInProgress c2"
    "poll_marks (trace c2) = poll_marks (trace ?c1) @ [StatusCall]" by blast
  then show ?thesis
    by (simp add: iteration_def inProgress_delay poll_marks_delay poll_marks_cancel_checkpoint)
qed

lemma check_status_result:
  assumes "isInProgress c" "status_reply pe = Inr ti" "\<not> running ti" "error ti = None"
    "result ti = Some r"
  shows "\<exists>c'. check_status pe c = Return c' \<and> state c' = RESOLVED \<and> payload c' = Some r \<and>
           poll_marks (trace c') = poll_marks (trace c) @ [StatusCall]"
proof -
  let ?c1 = "emit (AsyncTaskStatus (taskId c) (Inr ti)) (cancel_times (cancels_during_status pe) c)"
  have p: "isInProgress ?c1" using assms(1) by (simp add: inProgress_cancel_times)
  have m: "poll_marks (trace ?c1) = poll_marks (trace c) @ [StatusCall]"
    by (simp add: emit_def poll_marks_append poll_marks_cancel_times)
  from p assms(3,4,5) have "applyResult ti ?c1 =
      Normal (?c1\<lparr>state := RESOLVED, payload := Some r,
                   trace := trace ?c1 @ [Transition (state ?c1) RESOLVED]\<rparr>)"
    by (simp add: applyResult_def toResolved_def transition_def emit_def)
  with assms(2) m show ?thesis
    by (simp add: check_status_def Let_def isFinished_def poll_marks_append)
qed

lemma iteration_result:
  assumes "isInProgress c" "status_reply pe = Inr ti" "\<not> running ti" "error ti = None"
    "result ti = Some r"
  shows "\<exists>c'. iteration pe c = Return c' \<and> state c' = RESOLVED \<and> payload c' = Some r \<and>
           poll_marks (trace c') = poll_marks (trace c) @ [StatusCall]"
proof -
  let ?c1 = "cancel_checkpoint (loop_cancel pe) c"
  have "isInProgress ?c1" using assms(1) by (rule inProgress_cancel_checkpoint)
  from check_status_result[OF this assms(2-5)]
  show ?thesis
    by (auto simp add: iteration_def poll_marks_cancel_checkpoint)
qed

lemma poll_loop_running_then_result:
  assumes "isInProgress c"
    "\<forall>pe \<in> set ps. \<exists>ti. status_reply pe = Inr ti \<and> running ti"
    "status_reply pl = Inr tf" "\<not> running tf" "error tf = None" "result tf = Some r"
  shows "\<exists>c'. poll_loop (ps @ pl # rest) c = Returned c' \<and> state c' = RESOLVED \<and>
           payload c' = Some r \<and>
           poll_marks (trace c') =
             poll_marks (trace c) @
             concat (replicate (length ps) [StatusCall, Delay DELAY_BETWEEN_TRIES]) @ [StatusCall]"
  using assms(1,2)
proof (induction ps arbitrary: c)
  case Nil
  from iteration_result[OF Nil(1) assms(3-6)] Nil(1) show ?case by auto
next
  case (Cons pe ps)
  from Cons(3) obtain ti where ti: "status_reply pe = Inr ti" "running ti" by auto
  from iteration_running[OF Cons(2) ti]
  obtain c1 where c1: "iteration pe c = Continue c1" "isInProgress c1"
    "poll_marks (trace c1) = poll_marks (trace c) @ [StatusCall, Delay DELAY_BETWEEN_TRIES]"
    by blast
  from Cons(3) have "\<forall>pe \<in> set ps. \<exists>ti. status_reply pe = Inr ti \<and> running ti" by simp
  from Cons(1)[OF c1(2) this] c1 Cons(2) show ?case by auto
qed

lemma submit_running:
  assumes "submit_reply env = Inr t0" "running t0"
  shows "\<exists>c1. submit p off cnt env new_process = Normal c1 \<and> isInProgress c1 \<and>
           poll_marks (trace c1) = []"
proof -
  let ?c0 = "emit (AsyncSqlExecuteQuery p off cnt (Inr t0))
               (cancel_times (cancels_during_submit env) new_process)"
  have a: "isInProgress ?c0" by (simp add: inProgress_fresh)
  have b: "poll_marks (trace ?c0) = []"
    by (simp add: emit_def poll_marks_append poll_marks_cancel_times) (simp add: new_process_def)
  have c: "isInProgress (?c0\<lparr>taskId := Some (id' t0)\<rparr>)" using a by (simp add: isInProgress_def)
  show ?thesis using assms b inProgress_cancel_checkpoint[OF c]
    by (simp add: submit_def Let_def applyResult_def poll_marks_cancel_checkpoint)
qed

lemma status_calls_of_marks:
  "length (filter (\<lambda>m. m = StatusCall)
     (concat (replicate n [StatusCall, Delay DELAY_BETWEEN_TRIES]))) = n"
  by (induction n) simp_all

lemma check_status_failure:
  assumes "status_reply pe = Inl e"
  shows "check_status pe c =
           Continue ((cancel_times (cancels_during_status pe) c)
             \<lparr>trace := trace (cancel_times (cancels_during_status pe) c) @
                 [AsyncTaskStatus (taskId c) (Inl e),
                  LogException e ''Failed to check async task status'']\<rparr>)"
  using assms by (simp add: check_status_def Let_def logException_def emit_def)

lemma delay_trace:
  "trace (delay k c) =
     trace c @ CancellableTimeout DELAY_BETWEEN_TRIES #
       (if state c = PENDING \<and> 0 < k then [Transition PENDING CANCELLING] else [])"
  by (simp add: delay_def Let_def cancel_times_eq cancel_def deferred_defs split: option.splits)

lemma state_delay:
  "state (delay k c) = (if state c = PENDING \<and> 0 < k then CANCELLING else state c)"
  by (simp add: delay_def Let_def cancel_times_eq cancel_def deferred_defs split: option.splits)

lemma cancel_checkpoint_retry:
  assumes "state c = CANCELLING" "\<not> isCancelConfirmed c"
  shows "\<exists>post. trace (cancel_checkpoint ce c) =
           trace c @ AsyncTaskCancel (taskId c) (cancel_reply ce) # post"
  using assms
  by (cases "cancel_reply ce")
     (simp_all add: cancel_checkpoint_def cancelAsync_def Let_def deferred_defs
        cancel_times_not_pending cancel_times_eq cancel_def split: option.splits)

section \<open>Applying a status\<close>

text \<open>
  Claim C1. \<^verbatim>\<open>applyResult\<close> obeys the four-case rule, the cases taken in the order of
  the source. A running task leaves the controller unchanged. A task that is not running
  and carries an error goes to \<^verbatim>\<open>onError\<close> with the server error wrapped and the status
  message, whether or not it also carries a result. A task that is not running and carries
  neither an error nor a result goes to \<^verbatim>\<open>onError\<close> with the no-result fault and the
  status message. A task that is not running, carries no error and carries a result is
  resolved with that result: the call is \<^verbatim>\<open>toResolved(result)\<close>, which on a result in
  progress sets the state to Resolved and the value to the result.
\<close>

theorem applyResult_four_cases:
  "(running taskInfo \<longrightarrow> applyResult taskInfo c = Normal c) \<and>
   (\<not> running taskInfo \<longrightarrow> error taskInfo = Some se \<longrightarrow>
      applyResult taskInfo c = onError (ServerInternalError se) (status taskInfo) c) \<and>
   (\<not> running taskInfo \<longrightarrow> error taskInfo = None \<longrightarrow> result taskInfo = None \<longrightarrow>
      applyResult taskInfo c =
        onError (Error ''Tasks execution returns no result'') (status taskInfo) c) \<and>
   (\<not> running taskInfo \<longrightarrow> error taskInfo = None \<longrightarrow> result taskInfo = Some r \<longrightarrow>
      applyResult taskInfo c = toResolved r c \<and>
      (isInProgress c \<longrightarrow>
         applyResult taskInfo c =
           Normal (c\<lparr>state := RESOLVED, payload := Some r,
                     trace := trace c @ [Transition (state c) RESOLVED]\<rparr>)))"
  by (simp add: applyResult_def toResolved_def transition_def emit_def)

theorem applyResult_four_cases_witness:
  "running task_running \<and> applyResult task_running new_process = Normal new_process \<and>
   \<not> running task_error \<and> error task_error = Some (ServerError ''stopped'') \<and>
   applyResult task_error new_process =
     onError (ServerInternalError (ServerError ''stopped'')) (Some ''stopped'') new_process \<and>
   \<not> running task_empty \<and> error task_empty = None \<and> result task_empty = None \<and>
   applyResult task_empty new_process =
     onError (Error ''Tasks execution returns no result'') None new_process \<and>
   \<not> running task_result \<and> error task_result = None \<and>
   result task_result = Some (SqlExecuteInfo ''rows'') \<and> isInProgress new_process \<and>
   applyResult task_result new_process =
     Normal (new_process\<lparr>state := RESOLVED, payload := Some (SqlExecuteInfo ''rows''),
                         trace := [Transition PENDING RESOLVED]\<rparr>)"
  using applyResult_four_cases[where taskInfo = task_running and c = new_process]
    applyResult_four_cases[where taskInfo = task_error and c = new_process
      and se = "ServerError ''stopped''"]
    applyResult_four_cases[where taskInfo = task_empty and c = new_process]
    applyResult_four_cases[where taskInfo = task_result and c = new_process
      and r = "SqlExecuteInfo ''rows''"]
  by (auto simp add: task_running_def task_error_def task_empty_def task_result_def
        isInProgress_def new_process_def)

section \<open>The unified error path\<close>

text \<open>
  Claim C2. A fault routed through \<^verbatim>\<open>onError\<close> while the result is Cancelling cancels
  the result: the state becomes Cancelled, no rejection reason is stored, and the error is
  passed to the logging collaborator with the cancellation message. While the result is
  Pending the fault rejects it with that error; in any state but Cancelling the call is
  \<^verbatim>\<open>toRejected(error)\<close>. A submission that throws is routed this way with the thrown
  error. In particular, when the result is Cancelling after \<^verbatim>\<open>cancel()\<close> and the remote
  cancel call has succeeded (it was confirmed before, or it succeeds at the top of this
  iteration), a status that reports a task not running with an error ends \<^verbatim>\<open>start\<close> in
  the state Cancelled, with the error logged and nothing stored as rejection reason.
\<close>

theorem fault_while_cancelling_is_cancelled:
  "(getState c = CANCELLING \<longrightarrow>
      onError e st c =
        Normal (c\<lparr>state := CANCELLED,
                  trace := trace c @ [Transition CANCELLING CANCELLED,
                                      LogException e (canceled_message st)]\<rparr>)) \<and>
   (getState c = PENDING \<longrightarrow>
      onError e st c =
        Normal (c\<lparr>state := REJECTED, rejectionReason := Some e,
                  trace := trace c @ [Transition PENDING REJECTED]\<rparr>)) \<and>
   (getState c \<noteq> CANCELLING \<longrightarrow> onError e st c = toRejected e c) \<and>
   (submit_reply env = Inl e \<longrightarrow>
      start p off cnt env c =
        (case onError e None
                (emit (AsyncSqlExecuteQuery p off cnt (Inl e))
                   (cancel_times (cancels_during_submit env) c)) of
           Normal c2 \<Rightarrow> Returned c2 | Throw e' c2 \<Rightarrow> Uncaught e' c2)) \<and>
   (getState c = CANCELLING \<longrightarrow>
    (isCancelConfirmed c \<or> cancel_reply (loop_cancel pe) = None) \<longrightarrow>
    status_reply pe = Inr taskInfo \<longrightarrow> \<not> running taskInfo \<longrightarrow> error taskInfo = Some se \<longrightarrow>
      (\<exists>c'. poll_loop (pe # pes) c = Returned c' \<and> state c' = CANCELLED \<and>
            rejectionReason c' = rejectionReason c \<and>
            LogException (ServerInternalError se) (canceled_message (status taskInfo))
              \<in> set (trace c')))"
  using onError_routes[of c e st] submit_failure_routes[of env e p off cnt c]
    loop_error_while_cancelling[of c pe taskInfo se pes]
  by (simp add: getState_def)

theorem fault_while_cancelling_is_cancelled_witness:
  "getState (cancel new_process) = CANCELLING \<and>
   onError (GQLError ''network'') None (cancel new_process) =
     Normal (new_process\<lparr>state := CANCELLED,
        trace := [Transition PENDING CANCELLING, Transition CANCELLING CANCELLED,
                  LogException (GQLError ''network'') ''Query execution has been canceled'']\<rparr>) \<and>
   getState new_process = PENDING \<and>
   onError (GQLError ''network'') None new_process =
     Normal (new_process\<lparr>state := REJECTED, rejectionReason := Some (GQLError ''network''),
        trace := [Transition PENDING REJECTED]\<rparr>) \<and>
   submit_reply submit_fails_env = Inl (GQLError ''network'') \<and>
   state (process_of (start example_params 0 200 submit_fails_env new_process)) = REJECTED \<and>
   cancel_reply (loop_cancel poll_error) = None \<and>
   status_reply poll_error = Inr task_error \<and> \<not> running task_error \<and>
   error task_error = Some (ServerError ''stopped'') \<and>
   (\<exists>c'. poll_loop [poll_error] (cancel new_process) = Returned c' \<and> state c' = CANCELLED \<and>
         rejectionReason c' = None \<and>
         LogException (ServerInternalError (ServerError ''stopped''))
           ''Query execution has been canceled: stopped'' \<in> set (trace c')) \<and>
   start example_params 0 200 cancelled_env new_process =
     Returned (new_process\<lparr>state := CANCELLED, taskId := Some ''t1'', isCancelConfirmed := True,
       trace := [Transition PENDING CANCELLING,
                 AsyncSqlExecuteQuery example_params 0 200 (Inr task_running),
                 AsyncTaskCancel (Some ''t1'') None,
                 AsyncTaskStatus (Some ''t1'') (Inr task_error),
                 Transition CANCELLING CANCELLED,
                 LogException (ServerInternalError (ServerError ''stopped''))
                   ''Query execution has been canceled: stopped'']\<rparr>)"
proof -
  have h: "getState (cancel new_process) = CANCELLING" "getState new_process = PENDING"
    "submit_reply submit_fails_env = Inl (GQLError ''network'')"
    "cancel_reply (loop_cancel poll_error) = None"
    "status_reply poll_error = Inr task_error" "\<not> running task_error"
    "error task_error = Some (ServerError ''stopped'')"
    by (simp_all add: example_params_def task_running_def task_error_def cancel_ok_def poll_error_def
          submit_fails_env_def cancelled_env_def cancel_def deferred_defs new_process_def)
  have v: "rejectionReason (cancel new_process) = None"
    "canceled_message (status task_error) = ''Query execution has been canceled: stopped''"
    "canceled_message None = ''Query execution has been canceled''"
    by (simp_all add: example_params_def task_running_def task_error_def cancel_ok_def poll_error_def
          submit_fails_env_def cancelled_env_def cancel_def deferred_defs new_process_def canceled_message_def)
  note a = fault_while_cancelling_is_cancelled[where c = "cancel new_process"
      and e = "GQLError ''network''" and st = None and pe = poll_error and taskInfo = task_error
      and se = "ServerError ''stopped''" and pes = "[]" and env = submit_fails_env]
  note b = fault_while_cancelling_is_cancelled[where c = new_process
      and e = "GQLError ''network''" and st = None and env = submit_fails_env
      and p = example_params and off = 0 and cnt = 200]
  from a h v have 1: "onError (GQLError ''network'') None (cancel new_process) =
     Normal (new_process\<lparr>state := CANCELLED,
        trace := [Transition PENDING CANCELLING, Transition CANCELLING CANCELLED,
                  LogException (GQLError ''network'') ''Query execution has been canceled'']\<rparr>)"
    by (simp add: cancel_def deferred_defs new_process_def)
  from a h v have 2: "\<exists>c'. poll_loop [poll_error] (cancel new_process) = Returned c' \<and>
         state c' = CANCELLED \<and> rejectionReason c' = None \<and>
         LogException (ServerInternalError (ServerError ''stopped''))
           ''Query execution has been canceled: stopped'' \<in> set (trace c')"
    by simp
  from b h have 3: "onError (GQLError ''network'') None new_process =
     Normal (new_process\<lparr>state := REJECTED, rejectionReason := Some (GQLError ''network''),
        trace := [Transition PENDING REJECTED]\<rparr>)"
    by (simp add: new_process_def)
  from b h have 4: "state (process_of (start example_params 0 200 submit_fails_env new_process))
      = REJECTED"
    by (simp add: example_params_def task_running_def task_error_def cancel_ok_def poll_error_def
          submit_fails_env_def cancelled_env_def onError_def deferred_defs new_process_def)
  have 5: "start example_params 0 200 cancelled_env new_process =
     Returned (new_process\<lparr>state := CANCELLED, taskId := Some ''t1'', isCancelConfirmed := True,
       trace := [Transition PENDING CANCELLING,
                 AsyncSqlExecuteQuery example_params 0 200 (Inr task_running),
                 AsyncTaskCancel (Some ''t1'') None,
                 AsyncTaskStatus (Some ''t1'') (Inr task_error),
                 Transition CANCELLING CANCELLED,
                 LogException (ServerInternalError (ServerError ''stopped''))
                   ''Query execution has been canceled: stopped'']\<rparr>)"
    by (simp add: example_params_def task_running_def task_error_def cancel_ok_def poll_error_def
          submit_fails_env_def cancelled_env_def controller_defs deferred_defs Let_def)
  from h 1 2 3 4 5 show ?thesis by blast
qed

section \<open>The serialized cancel step\<close>

text \<open>
  Claim C3. \<^verbatim>\<open>cancelAsync\<close> changes nothing when \<^verbatim>\<open>isCancelConfirmed\<close> is true.
  Otherwise it calls the remote cancel operation. When the call succeeds on a Cancelling
  result, the flag is set and the result stays Cancelling. When the call fails on a
  Cancelling result, the state goes back to Pending and the error is reported with the
  message of the failed cancel. After such a failure, with no further \<^verbatim>\<open>cancel()\<close>, a
  status that reports the task finished rejects the result with the server error, or
  resolves it with the result, as it does for a result that was never cancelled.
\<close>

theorem cancelAsync_serialized_step:
  "(isCancelConfirmed c \<longrightarrow> cancelAsync ce tid c = c) \<and>
   (\<not> isCancelConfirmed c \<longrightarrow> getState c = CANCELLING \<longrightarrow> cancel_reply ce = None \<longrightarrow>
      cancelAsync ce tid c =
        c\<lparr>isCancelConfirmed := True, trace := trace c @ [AsyncTaskCancel tid None]\<rparr>) \<and>
   (\<not> isCancelConfirmed c \<longrightarrow> getState c = CANCELLING \<longrightarrow> cancel_reply ce = Some e \<longrightarrow>
      cancelAsync ce tid c =
        c\<lparr>state := PENDING,
          trace := trace c @ [AsyncTaskCancel tid (Some e), Transition CANCELLING PENDING,
                              LogException e ''Failed to cancel async task'']\<rparr>) \<and>
   (\<not> isCancelConfirmed c \<longrightarrow> getState c = CANCELLING \<longrightarrow>
    cancel_reply (loop_cancel pe) = Some e \<longrightarrow> cancels_on_return (loop_cancel pe) = 0 \<longrightarrow>
    cancels_during_status pe = 0 \<longrightarrow> status_reply pe = Inr taskInfo \<longrightarrow> \<not> running taskInfo \<longrightarrow>
      (error taskInfo = Some se \<longrightarrow>
         (\<exists>c'. poll_loop (pe # pes) c = Returned c' \<and> state c' = REJECTED \<and>
               rejectionReason c' = Some (ServerInternalError se))) \<and>
      (error taskInfo = None \<longrightarrow> result taskInfo = Some r \<longrightarrow>
         (\<exists>c'. poll_loop (pe # pes) c = Returned c' \<and> state c' = RESOLVED \<and>
               payload c' = Some r)))"
  using cancelAsync_cases[of c ce tid e] loop_after_failed_cancel[of c pe e taskInfo se pes r]
  by (simp add: getState_def)

theorem cancelAsync_serialized_step_witness:
  "isCancelConfirmed (new_process\<lparr>isCancelConfirmed := True\<rparr>) \<and>
   cancelAsync cancel_fails (Some ''t1'') (new_process\<lparr>isCancelConfirmed := True\<rparr>) =
     new_process\<lparr>isCancelConfirmed := True\<rparr> \<and>
   \<not> isCancelConfirmed (cancel new_process) \<and> getState (cancel new_process) = CANCELLING \<and>
   cancel_reply cancel_ok = None \<and>
   cancelAsync cancel_ok (Some ''t1'') (cancel new_process) =
     new_process\<lparr>state := CANCELLING, isCancelConfirmed := True,
        trace := [Transition PENDING CANCELLING, AsyncTaskCancel (Some ''t1'') None]\<rparr> \<and>
   cancel_reply cancel_fails = Some (GQLError ''network'') \<and>
   cancelAsync cancel_fails (Some ''t1'') (cancel new_process) =
     new_process\<lparr>trace := [Transition PENDING CANCELLING,
        AsyncTaskCancel (Some ''t1'') (Some (GQLError ''network'')),
        Transition CANCELLING PENDING,
        LogException (GQLError ''network'') ''Failed to cancel async task'']\<rparr> \<and>
   (\<exists>c'. poll_loop [poll_error\<lparr>loop_cancel := cancel_fails\<rparr>] (cancel new_process) = Returned c' \<and>
         state c' = REJECTED \<and>
         rejectionReason c' = Some (ServerInternalError (ServerError ''stopped''))) \<and>
   (\<exists>c'. poll_loop [poll_result\<lparr>loop_cancel := cancel_fails\<rparr>] (cancel new_process) = Returned c' \<and>
         state c' = RESOLVED \<and> payload c' = Some (SqlExecuteInfo ''rows''))"
proof -
  have h: "isCancelConfirmed (new_process\<lparr>isCancelConfirmed := True\<rparr>)"
    "\<not> isCancelConfirmed (cancel new_process)" "getState (cancel new_process) = CANCELLING"
    "cancel_reply cancel_ok = None" "cancel_reply cancel_fails = Some (GQLError ''network'')"
    by (simp_all add: task_result_def task_error_def cancel_ok_def cancel_fails_def poll_result_def
          poll_error_def cancel_def deferred_defs new_process_def)
  have g: "cancel_reply (loop_cancel (poll_error\<lparr>loop_cancel := cancel_fails\<rparr>)) =
             Some (GQLError ''network'')"
    "cancels_on_return (loop_cancel (poll_error\<lparr>loop_cancel := cancel_fails\<rparr>)) = 0"
    "cancels_during_status (poll_error\<lparr>loop_cancel := cancel_fails\<rparr>) = 0"
    "status_reply (poll_error\<lparr>loop_cancel := cancel_fails\<rparr>) = Inr task_error"
    "\<not> running task_error" "error task_error = Some (ServerError ''stopped'')"
    "cancel_reply (loop_cancel (poll_result\<lparr>loop_cancel := cancel_fails\<rparr>)) =
             Some (GQLError ''network'')"
    "cancels_on_return (loop_cancel (poll_result\<lparr>loop_cancel := cancel_fails\<rparr>)) = 0"
    "cancels_during_status (poll_result\<lparr>loop_cancel := cancel_fails\<rparr>) = 0"
    "status_reply (poll_result\<lparr>loop_cancel := cancel_fails\<rparr>) = Inr task_result"
    "\<not> running task_result" "error task_result = None"
    "result task_result = Some (SqlExecuteInfo ''rows'')"
    by (simp_all add: task_result_def task_error_def cancel_ok_def cancel_fails_def poll_result_def
          poll_error_def)
  note a = cancelAsync_serialized_step[where c = "new_process\<lparr>isCancelConfirmed := True\<rparr>"
      and ce = cancel_fails and tid = "Some ''t1''"]
  note b = cancelAsync_serialized_step[where c = "cancel new_process" and ce = cancel_ok
      and tid = "Some ''t1''"]
  note c = cancelAsync_serialized_step[where c = "cancel new_process" and ce = cancel_fails
      and tid = "Some ''t1''" and e = "GQLError ''network''"
      and pe = "poll_error\<lparr>loop_cancel := cancel_fails\<rparr>" and taskInfo = task_error
      and se = "ServerError ''stopped''" and pes = "[]"]
  note d = cancelAsync_serialized_step[where c = "cancel new_process" and ce = cancel_fails
      and tid = "Some ''t1''" and e = "GQLError ''network''"
      and pe = "poll_result\<lparr>loop_cancel := cancel_fails\<rparr>" and taskInfo = task_result
      and r = "SqlExecuteInfo ''rows''" and pes = "[]"]
  from a h have 1: "cancelAsync cancel_fails (Some ''t1'') (new_process\<lparr>isCancelConfirmed := True\<rparr>) =
     new_process\<lparr>isCancelConfirmed := True\<rparr>" by blast
  from b h have 2: "cancelAsync cancel_ok (Some ''t1'') (cancel new_process) =
     new_process\<lparr>state := CANCELLING, isCancelConfirmed := True,
        trace := [Transition PENDING CANCELLING, AsyncTaskCancel (Some ''t1'') None]\<rparr>"
    by (simp add: cancel_def deferred_defs new_process_def)
  from c h have 3: "cancelAsync cancel_fails (Some ''t1'') (cancel new_process) =
     new_process\<lparr>trace := [Transition PENDING CANCELLING,
        AsyncTaskCancel (Some ''t1'') (Some (GQLError ''network'')),
        Transition CANCELLING PENDING,
        LogException (GQLError ''network'') ''Failed to cancel async task'']\<rparr>"
    by (simp add: cancel_def deferred_defs new_process_def)
  from c h g have 4: "\<exists>c'. poll_loop [poll_error\<lparr>loop_cancel := cancel_fails\<rparr>] (cancel new_process)
         = Returned c' \<and> state c' = REJECTED \<and>
         rejectionReason c' = Some (ServerInternalError (ServerError ''stopped''))"
    by blast
  from d h g have 5: "\<exists>c'. poll_loop [poll_result\<lparr>loop_cancel := cancel_fails\<rparr>] (cancel new_process)
         = Returned c' \<and> state c' = RESOLVED \<and> payload c' = Some (SqlExecuteInfo ''rows'')"
    by blast
  from h 1 2 3 4 5 show ?thesis by blast
qed

section \<open>The public cancel operation\<close>

text \<open>
  Claim C4. \<^verbatim>\<open>cancel()\<close> changes nothing when the state is not Pending. When the state
  is Pending it sets the state to Cancelling and cancels the delay handle if one is active,
  and that is all it does; it issues no remote call. Consequently, in every execution of a
  controller, every transition into Cancelling leaves the state Pending.
\<close>

theorem cancel_only_marks:
  "(getState c \<noteq> PENDING \<longrightarrow> cancel c = c) \<and>
   (getState c = PENDING \<longrightarrow>
      cancel c = c\<lparr>state := CANCELLING,
                    timeout := map_option cancel_timer (timeout c),
                    trace := trace c @ [Transition PENDING CANCELLING]\<rparr>) \<and>
   filter is_remote_call (trace (cancel c)) = filter is_remote_call (trace c) \<and>
   (\<forall>s. Transition s CANCELLING \<in> set (trace (execution before p off cnt env after)) \<longrightarrow>
        s = PENDING)"
  using execution_trace[of before p off cnt env after] cancel_frame[of c] remote_calls_cancel[of c]
  by (simp add: entered_from_pending_def)

theorem cancel_only_marks_witness:
  "getState (new_process\<lparr>state := RESOLVED\<rparr>) \<noteq> PENDING \<and>
   cancel (new_process\<lparr>state := RESOLVED\<rparr>) = new_process\<lparr>state := RESOLVED\<rparr> \<and>
   getState (new_process\<lparr>timeout := Some TimerActive\<rparr>) = PENDING \<and>
   cancel (new_process\<lparr>timeout := Some TimerActive\<rparr>) =
     new_process\<lparr>state := CANCELLING, timeout := Some TimerCancelled,
                  trace := [Transition PENDING CANCELLING]\<rparr> \<and>
   Transition PENDING CANCELLING \<in> set (trace (execution 0 example_params 0 200 retry_env 1)) \<and>
   \<not> (\<exists>s. s \<noteq> PENDING \<and>
          Transition s CANCELLING \<in> set (trace (execution 0 example_params 0 200 retry_env 1)))"
proof -
  have h: "getState (new_process\<lparr>state := RESOLVED\<rparr>) \<noteq> PENDING"
    "getState (new_process\<lparr>timeout := Some TimerActive\<rparr>) = PENDING"
    by (simp_all add: getState_def new_process_def)
  have m: "Transition PENDING CANCELLING
             \<in> set (trace (execution 0 example_params 0 200 retry_env 1))"
    by (simp add: example_params_def task_running_def task_error_def cancel_ok_def cancel_fails_def
          poll_running_def poll_error_def retry_env_def controller_defs deferred_defs Let_def)
  note a = cancel_only_marks[where c = "new_process\<lparr>state := RESOLVED\<rparr>"]
  note b = cancel_only_marks[where c = "new_process\<lparr>timeout := Some TimerActive\<rparr>"
      and before = 0 and p = example_params and off = 0 and cnt = 200 and env = retry_env
      and after = 1]
  from a h have 1: "cancel (new_process\<lparr>state := RESOLVED\<rparr>) = new_process\<lparr>state := RESOLVED\<rparr>"
    by blast
  from b h have 2: "cancel (new_process\<lparr>timeout := Some TimerActive\<rparr>) =
     new_process\<lparr>state := CANCELLING, timeout := Some TimerCancelled,
                  trace := [Transition PENDING CANCELLING]\<rparr>"
    by (simp add: new_process_def)
  from b have 3: "\<not> (\<exists>s. s \<noteq> PENDING \<and>
          Transition s CANCELLING \<in> set (trace (execution 0 example_params 0 200 retry_env 1)))"
    by blast
  from h m 1 2 3 show ?thesis by blast
qed

section \<open>The poll loop\<close>

text \<open>
  Claim C5. When the submission reports a running task, the next \<open>N\<close> status checks
  report a running task and the one after them reports a task that is not running, with a
  result and no error, then \<^verbatim>\<open>start\<close> returns with the result Resolved to that value;
  the controller has issued exactly \<open>N + 1\<close> status calls, and it has started a delay of
  \<^verbatim>\<open>DELAY_BETWEEN_TRIES\<close> between each status call and the next. This holds whatever
  \<^verbatim>\<open>cancel()\<close> invocations and remote cancel outcomes the execution contains.
\<close>

theorem polls_until_result:
  assumes "submit_reply env = Inr t0" "running t0"
    "polls env = ps @ pl # rest"
    "\<forall>pe \<in> set ps. \<exists>ti. status_reply pe = Inr ti \<and> running ti"
    "status_reply pl = Inr tf" "\<not> running tf" "error tf = None" "result tf = Some r"
  shows "\<exists>c'. start p off cnt env new_process = Returned c' \<and>
           state c' = RESOLVED \<and> payload c' = Some r \<and>
           poll_marks (trace c') =
             concat (replicate (length ps) [StatusCall, Delay DELAY_BETWEEN_TRIES]) @ [StatusCall] \<and>
           length (filter (\<lambda>m. m = StatusCall) (poll_marks (trace c'))) = length ps + 1"
proof -
  from submit_running[OF assms(1,2)]
  obtain c1 where c1: "submit p off cnt env new_process = Normal c1" "isInProgress c1"
    "poll_marks (trace c1) = []" by blast
  from poll_loop_running_then_result[OF c1(2) assms(4-8), of rest]
  obtain c' where c': "poll_loop (ps @ pl # rest) c1 = Returned c'" "state c' = RESOLVED"
    "payload c' = Some r"
    "poll_marks (trace c') = poll_marks (trace c1) @
             concat (replicate (length ps) [StatusCall, Delay DELAY_BETWEEN_TRIES]) @ [StatusCall]"
    by blast
  from c1 c' assms(3) status_calls_of_marks[of "length ps"] show ?thesis
    by (simp add: start_def finished_not_inProgress)
qed

theorem polls_until_result_witness:
  "submit_reply two_polls_env = Inr task_running \<and> running task_running \<and>
   polls two_polls_env = [poll_running, poll_running] @ poll_result # [] \<and>
   status_reply poll_running = Inr task_running \<and>
   status_reply poll_result = Inr task_result \<and> \<not> running task_result \<and>
   error task_result = None \<and> result task_result = Some (SqlExecuteInfo ''rows'') \<and>
   (\<exists>c'. start example_params 0 200 two_polls_env new_process = Returned c' \<and>
         state c' = RESOLVED \<and> payload c' = Some (SqlExecuteInfo ''rows'') \<and>
         poll_marks (trace c') =
           [StatusCall, Delay 1000, StatusCall, Delay 1000, StatusCall] \<and>
         length (filter (\<lambda>m. m = StatusCall) (poll_marks (trace c'))) = 3)"
proof -
  have h: "submit_reply two_polls_env = Inr task_running" "running task_running"
    "polls two_polls_env = [poll_running, poll_running] @ poll_result # []"
    "status_reply poll_running = Inr task_running"
    "status_reply poll_result = Inr task_result" "\<not> running task_result"
    "error task_result = None" "result task_result = Some (SqlExecuteInfo ''rows'')"
    by (simp_all add: task_running_def task_result_def cancel_ok_def poll_running_def poll_result_def
          two_polls_env_def)
  have q: "\<forall>pe \<in> set [poll_running, poll_running]. \<exists>ti. status_reply pe = Inr ti \<and> running ti"
    using h(2,4) by simp
  from polls_until_result[OF h(1,2,3) q h(5,6,7,8), of example_params 0 200]
  have "\<exists>c'. start example_params 0 200 two_polls_env new_process = Returned c' \<and>
         state c' = RESOLVED \<and> payload c' = Some (SqlExecuteInfo ''rows'') \<and>
         poll_marks (trace c') =
           [StatusCall, Delay 1000, StatusCall, Delay 1000, StatusCall] \<and>
         length (filter (\<lambda>m. m = StatusCall) (poll_marks (trace c'))) = 3"
    by (simp add: DELAY_BETWEEN_TRIES_def numeral_2_eq_2 numeral_3_eq_3)
  with h show ?thesis by blast
qed

section \<open>Remote cancel calls\<close>

text \<open>
  Claim C6, as the code has it. The flag \<^verbatim>\<open>isCancelConfirmed\<close> gates every remote
  cancel call: in every execution of a controller each remote cancel call is issued while
  the flag is false, the flag is true at the end exactly when a remote cancel call has
  succeeded, and no remote cancel call follows one that succeeded. A remote cancel
  call that fails rolls the result back to Pending, where \<^verbatim>\<open>cancel()\<close> can be requested
  again; so the number of remote cancel calls is at most one more than the number of
  failed ones.
\<close>

theorem confirmed_cancel_gates_calls:
  "gated False (trace (execution before p off cnt env after)) \<and>
   isCancelConfirmed (execution before p off cnt env after) =
     confirmed False (trace (execution before p off cnt env after)) \<and>
   cancel_calls (trace (execution before p off cnt env after))
     \<le> Suc (failed_cancel_calls (trace (execution before p off cnt env after))) \<and>
   (\<forall>xs tid ys. trace (execution before p off cnt env after) = xs @ AsyncTaskCancel tid None # ys
       \<longrightarrow> cancel_calls ys = 0)"
  using execution_trace[of before p off cnt env after]
    gated_bound[of False "trace (execution before p off cnt env after)"]
  by (auto dest: gated_after_confirm[of False])

theorem confirmed_cancel_gates_calls_witness:
  "gated False (trace (execution 0 example_params 0 200 retry_env 1)) \<and>
   isCancelConfirmed (execution 0 example_params 0 200 retry_env 1) \<and>
   cancel_calls (trace (execution 0 example_params 0 200 retry_env 1)) = 2 \<and>
   failed_cancel_calls (trace (execution 0 example_params 0 200 retry_env 1)) = 1 \<and>
   trace (execution 0 example_params 0 200 retry_env 1) =
     take 8 (trace (execution 0 example_params 0 200 retry_env 1)) @
     AsyncTaskCancel (Some ''t1'') None #
     drop 9 (trace (execution 0 example_params 0 200 retry_env 1)) \<and>
   cancel_calls (drop 9 (trace (execution 0 example_params 0 200 retry_env 1))) = 0"
proof -
  have h: "trace (execution 0 example_params 0 200 retry_env 1) =
     take 8 (trace (execution 0 example_params 0 200 retry_env 1)) @
     AsyncTaskCancel (Some ''t1'') None #
     drop 9 (trace (execution 0 example_params 0 200 retry_env 1))"
    by (simp add: example_params_def task_running_def task_error_def cancel_ok_def cancel_fails_def
          poll_running_def poll_error_def retry_env_def controller_defs deferred_defs Let_def)
  have n: "cancel_calls (trace (execution 0 example_params 0 200 retry_env 1)) = 2"
    "failed_cancel_calls (trace (execution 0 example_params 0 200 retry_env 1)) = 1"
    by (simp_all add: example_params_def task_running_def task_error_def cancel_ok_def cancel_fails_def
          poll_running_def poll_error_def retry_env_def controller_defs deferred_defs Let_def cancel_calls_def
          failed_cancel_calls_def)
  note a = confirmed_cancel_gates_calls[where before = 0 and p = example_params and off = 0
      and cnt = 200 and env = retry_env and after = 1]
  have f: "isCancelConfirmed (execution 0 example_params 0 200 retry_env 1)"
    by (simp add: example_params_def task_running_def task_error_def cancel_ok_def cancel_fails_def
          poll_running_def poll_error_def retry_env_def controller_defs deferred_defs Let_def)
  from a h have "cancel_calls (drop 9 (trace (execution 0 example_params 0 200 retry_env 1))) = 0"
    by blast
  with a h n f show ?thesis by blast
qed

text \<open>
  The claim as stated, at most one remote cancel call in an execution, fails: the first
  call is rejected by the remote, the result goes back to Pending, \<^verbatim>\<open>cancel()\<close> is
  invoked again, and the top of the next iteration issues a second call for the same task.
\<close>

theorem second_cancel_call_after_failure:
  "\<not> cancel_calls (trace (execution 0 example_params 0 200 retry_env 0)) \<le> 1"
  by (simp add: example_params_def task_running_def task_error_def cancel_ok_def cancel_fails_def
          poll_running_def poll_error_def retry_env_def controller_defs deferred_defs Let_def cancel_calls_def)

section \<open>Terminal states and reported faults\<close>

text \<open>
  Claim C7. Every execution of \<^verbatim>\<open>start\<close> on a fresh controller that returns leaves the
  result in one of the terminal states Resolved, Rejected, Cancelled, and \<^verbatim>\<open>start\<close>
  never ends with an uncaught fault. In every execution each failed status check and each
  failed remote cancel call is reported to the logging collaborator before anything else
  is called.
\<close>

theorem start_terminal_and_faults_logged:
  "(start p off cnt env (cancel_times before new_process) = Returned c' \<longrightarrow>
      state c' = RESOLVED \<or> state c' = REJECTED \<or> state c' = CANCELLED) \<and>
   (\<forall>e c''. start p off cnt env (cancel_times before new_process) \<noteq> Uncaught e c'') \<and>
   faults_logged (trace (execution before p off cnt env after))"
proof -
  have "faults_logged (trace (execution before p off cnt env after))"
    using execution_trace[of before p off cnt env after] by simp
  moreover have "start p off cnt env (cancel_times before new_process) = Returned c' \<longrightarrow>
      state c' = RESOLVED \<or> state c' = REJECTED \<or> state c' = CANCELLED"
    using start_outcome[OF inProgress_fresh, of p off cnt env before]
    by (auto simp: isFinished_def)
  moreover have "\<forall>e c''. start p off cnt env (cancel_times before new_process) \<noteq> Uncaught e c''"
    using start_outcome[OF inProgress_fresh, of p off cnt env before]
    by auto
  ultimately show ?thesis by blast
qed

theorem start_terminal_and_faults_logged_witness:
  "start example_params 0 200 flaky_env (cancel_times 0 new_process) =
     Returned (process_of (start example_params 0 200 flaky_env (cancel_times 0 new_process))) \<and>
   state (process_of (start example_params 0 200 flaky_env (cancel_times 0 new_process)))
     = RESOLVED \<and>
   LogException (GQLError ''timeout'') ''Failed to check async task status''
     \<in> set (trace (execution 0 example_params 0 200 flaky_env 0)) \<and>
   faults_logged (trace (execution 0 example_params 0 200 flaky_env 0)) \<and>
   LogException (GQLError ''network'') ''Failed to cancel async task''
     \<in> set (trace (execution 0 example_params 0 200 retry_env 0)) \<and>
   faults_logged (trace (execution 0 example_params 0 200 retry_env 0))"
proof -
  have h: "start example_params 0 200 flaky_env (cancel_times 0 new_process) =
     Returned (process_of (start example_params 0 200 flaky_env (cancel_times 0 new_process)))"
    by (simp add: example_params_def task_running_def task_error_def cancel_ok_def cancel_fails_def
          poll_running_def poll_error_def retry_env_def
          task_result_def poll_result_def poll_timeout_def flaky_env_def controller_defs deferred_defs Let_def)
  have l: "LogException (GQLError ''timeout'') ''Failed to check async task status''
     \<in> set (trace (execution 0 example_params 0 200 flaky_env 0))"
    "LogException (GQLError ''network'') ''Failed to cancel async task''
     \<in> set (trace (execution 0 example_params 0 200 retry_env 0))"
    by (simp_all add: example_params_def task_running_def task_error_def cancel_ok_def cancel_fails_def
          poll_running_def poll_error_def retry_env_def
          task_result_def poll_result_def poll_timeout_def flaky_env_def controller_defs deferred_defs Let_def)
  have s: "state (process_of (start example_params 0 200 flaky_env (cancel_times 0 new_process)))
     \<noteq> REJECTED"
    "state (process_of (start example_params 0 200 flaky_env (cancel_times 0 new_process)))
     \<noteq> CANCELLED"
    by (simp_all add: example_params_def task_running_def task_error_def cancel_ok_def cancel_fails_def
          poll_running_def poll_error_def retry_env_def
          task_result_def poll_result_def poll_timeout_def flaky_env_def controller_defs deferred_defs Let_def)
  note a = start_terminal_and_faults_logged[where p = example_params and off = 0 and cnt = 200
      and env = flaky_env and before = 0 and after = 0
      and c' = "process_of (start example_params 0 200 flaky_env (cancel_times 0 new_process))"]
  note b = start_terminal_and_faults_logged[where p = example_params and off = 0 and cnt = 200
      and env = retry_env and before = 0 and after = 0]
  from a h s have "state (process_of (start example_params 0 200 flaky_env
      (cancel_times 0 new_process))) = RESOLVED"
    by blast
  with a b h l show ?thesis by blast
qed

section \<open>A failed status check\<close>

text \<open>
  Claim C8. A status check that throws does not end the operation. Let \<open>c1\<close> be the
  controller when the status call settles. The iteration continues from \<open>c1\<close>: the error
  is reported to the logging collaborator as a failed status check, the delay is started,
  the result is still in progress and the loop goes on with the next iteration. This is so
  in the state Cancelling as in the state Pending. Between the failure and the end of the
  iteration no remote cancel call is issued: the events after the failure are the report,
  the delay and at most the transition of a \<^verbatim>\<open>cancel()\<close> that arrives during the delay.
  A result that is Cancelling and not confirmed at the end of the iteration meets the
  remote cancel call at the checkpoint on top of the next iteration.
\<close>

theorem status_failure_is_transient:
  assumes "isInProgress c" "status_reply pe = Inl e"
  shows "\<exists>c1 c'.
           c1 = cancel_times (cancels_during_status pe) (cancel_checkpoint (loop_cancel pe) c) \<and>
           iteration pe c = Continue c' \<and> isInProgress c' \<and>
           poll_loop (pe # pes) c = poll_loop pes c' \<and>
           state c' = (if state c1 = PENDING \<and> 0 < cancels_during_delay pe
                       then CANCELLING else state c1) \<and>
           trace c' =
             trace c1 @
             [AsyncTaskStatus (taskId c) (Inl e),
              LogException e ''Failed to check async task status'',
              CancellableTimeout DELAY_BETWEEN_TRIES] @
             (if state c1 = PENDING \<and> 0 < cancels_during_delay pe
              then [Transition PENDING CANCELLING] else []) \<and>
           (state c' = CANCELLING \<longrightarrow> \<not> isCancelConfirmed c' \<longrightarrow>
              (\<forall>ce. \<exists>post. trace (cancel_checkpoint ce c') =
                 trace c' @ AsyncTaskCancel (taskId c') (cancel_reply ce) # post))"
proof -
  let ?c0 = "cancel_checkpoint (loop_cancel pe) c"
  let ?c1 = "cancel_times (cancels_during_status pe) ?c0"
  let ?c2 = "?c1\<lparr>trace := trace ?c1 @
                 [AsyncTaskStatus (taskId ?c0) (Inl e),
                  LogException e ''Failed to check async task status'']\<rparr>"
  let ?c' = "delay (cancels_during_delay pe) ?c2"
  have tid: "taskId ?c0 = taskId c"
    by (simp add: cancel_checkpoint_def cancelAsync_def Let_def deferred_defs split: option.splits)
  have it: "iteration pe c = Continue ?c'"
    by (simp add: iteration_def check_status_failure[OF assms(2)])
  have "isInProgress ?c1"
    using inProgress_cancel_checkpoint[OF assms(1), of "loop_cancel pe"]
    by (simp add: inProgress_cancel_times)
  then have "isInProgress ?c2" by (simp add: isInProgress_def)
  then have prog: "isInProgress ?c'" by (simp add: inProgress_delay)
  have loop: "poll_loop (pe # pes) c = poll_loop pes ?c'"
    using assms(1) it by simp
  have st: "state ?c' = (if state ?c1 = PENDING \<and> 0 < cancels_during_delay pe
                       then CANCELLING else state ?c1)"
    by (simp add: state_delay)
  have tr: "trace ?c' = trace ?c1 @
             [AsyncTaskStatus (taskId c) (Inl e),
              LogException e ''Failed to check async task status'',
              CancellableTimeout DELAY_BETWEEN_TRIES] @
             (if state ?c1 = PENDING \<and> 0 < cancels_during_delay pe
              then [Transition PENDING CANCELLING] else [])"
    by (simp add: delay_trace tid)
  have retry: "state ?c' = CANCELLING \<longrightarrow> \<not> isCancelConfirmed ?c' \<longrightarrow>
              (\<forall>ce. \<exists>post. trace (cancel_checkpoint ce ?c') =
                 trace ?c' @ AsyncTaskCancel (taskId ?c') (cancel_reply ce) # post)"
    using cancel_checkpoint_retry[of ?c'] by blast
  from it prog loop st tr retry show ?thesis by blast
qed

theorem status_failure_is_transient_witness:
  "isInProgress (cancel new_process) \<and>
   status_reply (poll_timeout\<lparr>loop_cancel := cancel_fails, cancels_during_delay := 1\<rparr>) =
     Inl (GQLError ''timeout'') \<and>
   (\<exists>c'. iteration (poll_timeout\<lparr>loop_cancel := cancel_fails, cancels_during_delay := 1\<rparr>)
            (cancel new_process) = Continue c' \<and>
         isInProgress c' \<and>
         poll_loop [poll_timeout\<lparr>loop_cancel := cancel_fails, cancels_during_delay := 1\<rparr>,
                    poll_error] (cancel new_process) = poll_loop [poll_error] c' \<and>
         state c' = CANCELLING \<and>
         trace c' =
           [Transition PENDING CANCELLING,
            AsyncTaskCancel None (Some (GQLError ''network'')),
            Transition CANCELLING PENDING,
            LogException (GQLError ''network'') ''Failed to cancel async task'',
            AsyncTaskStatus None (Inl (GQLError ''timeout'')),
            LogException (GQLError ''timeout'') ''Failed to check async task status'',
            CancellableTimeout 1000,
            Transition PENDING CANCELLING])"
proof -
  let ?pe = "poll_timeout\<lparr>loop_cancel := cancel_fails, cancels_during_delay := 1\<rparr>"
  have h: "isInProgress (cancel new_process)" "status_reply ?pe = Inl (GQLError ''timeout'')"
    by (simp_all add: cancel_ok_def cancel_fails_def poll_timeout_def cancel_def deferred_defs new_process_def)
  have v: "cancel_times (cancels_during_status ?pe)
             (cancel_checkpoint (loop_cancel ?pe) (cancel new_process)) =
           new_process\<lparr>trace := [Transition PENDING CANCELLING,
              AsyncTaskCancel None (Some (GQLError ''network'')),
              Transition CANCELLING PENDING,
              LogException (GQLError ''network'') ''Failed to cancel async task'']\<rparr>"
    by (simp add: cancel_ok_def cancel_fails_def poll_timeout_def controller_defs deferred_defs Let_def)
  have w: "cancels_during_delay ?pe = 1" "taskId (cancel new_process) = None"
    "state new_process = PENDING"
    by (simp_all add: cancel_ok_def cancel_fails_def poll_timeout_def cancel_def deferred_defs new_process_def)
  from status_failure_is_transient[OF h, of "[poll_error]"]
  have "\<exists>c'. iteration ?pe (cancel new_process) = Continue c' \<and>
         isInProgress c' \<and>
         poll_loop [?pe, poll_error] (cancel new_process) = poll_loop [poll_error] c' \<and>
         state c' = CANCELLING \<and>
         trace c' =
           [Transition PENDING CANCELLING,
            AsyncTaskCancel None (Some (GQLError ''network'')),
            Transition CANCELLING PENDING,
            LogException (GQLError ''network'') ''Failed to cancel async task'',
            AsyncTaskStatus None (Inl (GQLError ''timeout'')),
            LogException (GQLError ''timeout'') ''Failed to check async task status'',
            CancellableTimeout 1000,
            Transition PENDING CANCELLING]"
    unfolding v w by (auto simp add: DELAY_BETWEEN_TRIES_def w)
  with h show ?thesis by blast
qed

section \<open>Cancellation during the submission\<close>

text \<open>
  Claim C9. \<^verbatim>\<open>start\<close> applies the status of the submit response before it looks at the
  state. When \<^verbatim>\<open>cancel()\<close> was invoked during the submission and the submit response
  reports a task that is not running, \<^verbatim>\<open>start\<close> returns with a terminal state taken
  from that response: Cancelled when the response carries an error or no result, Resolved
  with the result when it carries a result and no error. The submission is the only remote
  call of the execution: no cancel call and no status call is issued.
\<close>

theorem cancelled_during_submit_finishes_on_response:
  assumes "0 < cancels_during_submit env" "submit_reply env = Inr taskInfo" "\<not> running taskInfo"
  shows "\<exists>c'. start p off cnt env new_process = Returned c' \<and>
           (error taskInfo \<noteq> None \<or> result taskInfo = None \<longrightarrow> state c' = CANCELLED) \<and>
           (error taskInfo = None \<longrightarrow> result taskInfo = Some r \<longrightarrow>
              state c' = RESOLVED \<and> payload c' = Some r) \<and>
           filter is_remote_call (trace c') = [AsyncSqlExecuteQuery p off cnt (Inr taskInfo)]"
  using assms
  by (cases "error taskInfo"; cases "result taskInfo")
     (simp_all add: start_def submit_def Let_def cancel_times_fresh applyResult_def onError_def
        deferred_defs cancel_checkpoint_def)

theorem cancelled_during_submit_finishes_on_response_witness:
  "0 < cancels_during_submit early_error_env \<and> submit_reply early_error_env = Inr task_error \<and>
   \<not> running task_error \<and> error task_error \<noteq> None \<and>
   (\<exists>c'. start example_params 0 200 early_error_env new_process = Returned c' \<and>
         state c' = CANCELLED \<and>
         filter is_remote_call (trace c') =
           [AsyncSqlExecuteQuery example_params 0 200 (Inr task_error)]) \<and>
   0 < cancels_during_submit early_result_env \<and> submit_reply early_result_env = Inr task_result \<and>
   \<not> running task_result \<and> error task_result = None \<and>
   result task_result = Some (SqlExecuteInfo ''rows'') \<and>
   (\<exists>c'. start example_params 0 200 early_result_env new_process = Returned c' \<and>
         state c' = RESOLVED \<and> payload c' = Some (SqlExecuteInfo ''rows'') \<and>
         filter is_remote_call (trace c') =
           [AsyncSqlExecuteQuery example_params 0 200 (Inr task_result)])"
proof -
  have h: "0 < cancels_during_submit early_error_env"
    "submit_reply early_error_env = Inr task_error" "\<not> running task_error"
    by (simp_all add: task_result_def task_error_def cancel_ok_def early_error_env_def
          early_result_env_def)
  have g: "0 < cancels_during_submit early_result_env"
    "submit_reply early_result_env = Inr task_result" "\<not> running task_result"
    by (simp_all add: task_result_def task_error_def cancel_ok_def early_error_env_def
          early_result_env_def)
  have v: "error task_error \<noteq> None" "error task_result = None"
    "result task_result = Some (SqlExecuteInfo ''rows'')"
    by (simp_all add: task_result_def task_error_def cancel_ok_def early_error_env_def
          early_result_env_def)
  from cancelled_during_submit_finishes_on_response[OF h, of example_params 0 200] v
  have 1: "\<exists>c'. start example_params 0 200 early_error_env new_process = Returned c' \<and>
         state c' = CANCELLED \<and>
         filter is_remote_call (trace c') =
           [AsyncSqlExecuteQuery example_params 0 200 (Inr task_error)]"
    by blast
  from cancelled_during_submit_finishes_on_response[OF g, of example_params 0 200
      "SqlExecuteInfo ''rows''"] v
  have 2: "\<exists>c'. start example_params 0 200 early_result_env new_process = Returned c' \<and>
         state c' = RESOLVED \<and> payload c' = Some (SqlExecuteInfo ''rows'') \<and>
         filter is_remote_call (trace c') =
           [AsyncSqlExecuteQuery example_params 0 200 (Inr task_result)]"
    by blast
  from h g v 1 2 show ?thesis by blast
qed

section \<open>After the confirmation\<close>

text \<open>
  Claim C10. Once \<^verbatim>\<open>isCancelConfirmed\<close> is true the result never goes back to Pending.
  The flag is set when a remote cancel call succeeds; in every execution of a controller
  no transition to Pending follows a successful remote cancel call. The only transition to
  Pending is in the failure branch of \<^verbatim>\<open>cancelAsync\<close>, and \<^verbatim>\<open>cancelAsync\<close> changes
  nothing when the flag is true.
\<close>

theorem confirmed_never_pending_again:
  "(isCancelConfirmed c \<longrightarrow> cancelAsync ce tid c = c) \<and>
   no_rollback False (trace (execution before p off cnt env after)) \<and>
   (\<forall>xs t ys s. trace (execution before p off cnt env after) = xs @ AsyncTaskCancel t None # ys
       \<longrightarrow> Transition s PENDING \<notin> set ys)"
  using execution_trace[of before p off cnt env after]
  by (auto simp: cancelAsync_def dest: no_rollback_after_confirm)

theorem confirmed_never_pending_again_witness:
  "isCancelConfirmed (execution 0 example_params 0 200 retry_env 1) \<and>
   cancelAsync cancel_fails (Some ''t1'') (execution 0 example_params 0 200 retry_env 1) =
     execution 0 example_params 0 200 retry_env 1 \<and>
   Transition CANCELLING PENDING
     \<in> set (take 8 (trace (execution 0 example_params 0 200 retry_env 1))) \<and>
   trace (execution 0 example_params 0 200 retry_env 1) =
     take 8 (trace (execution 0 example_params 0 200 retry_env 1)) @
     AsyncTaskCancel (Some ''t1'') None #
     drop 9 (trace (execution 0 example_params 0 200 retry_env 1)) \<and>
   (\<forall>s. Transition s PENDING
          \<notin> set (drop 9 (trace (execution 0 example_params 0 200 retry_env 1))))"
proof -
  have h: "isCancelConfirmed (execution 0 example_params 0 200 retry_env 1)"
    "trace (execution 0 example_params 0 200 retry_env 1) =
     take 8 (trace (execution 0 example_params 0 200 retry_env 1)) @
     AsyncTaskCancel (Some ''t1'') None #
     drop 9 (trace (execution 0 example_params 0 200 retry_env 1))"
    "Transition CANCELLING PENDING
     \<in> set (take 8 (trace (execution 0 example_params 0 200 retry_env 1)))"
    by (simp_all add: example_params_def task_running_def task_error_def cancel_ok_def cancel_fails_def
          poll_running_def poll_error_def retry_env_def controller_defs deferred_defs Let_def)
  note a = confirmed_never_pending_again[where c = "execution 0 example_params 0 200 retry_env 1"
      and ce = cancel_fails and tid = "Some ''t1''" and before = 0 and p = example_params
      and off = 0 and cnt = 200 and env = retry_env and after = 1]
  from a h(1) have 1: "cancelAsync cancel_fails (Some ''t1'')
      (execution 0 example_params 0 200 retry_env 1) = execution 0 example_params 0 200 retry_env 1"
    by blast
  from a h(2) have 2: "\<forall>s. Transition s PENDING
          \<notin> set (drop 9 (trace (execution 0 example_params 0 200 retry_env 1)))"
    by blast
  from h 1 2 show ?thesis by blast
qed

end
